theory Spec2Isabelle
  imports Complex_Main
begin

section \<open>Python strings\<close>

text \<open>
  A Python \<open>str\<close> is a sequence of Unicode code points and \<open>len\<close> counts code points,
  so a string is modelled as a list of code points. The Korean and emoji literals of the
  source are written out as their code points.
\<close>

type_synonym ustring = "nat list"

definition ascii :: "string \<Rightarrow> ustring" where
  "ascii s = map of_char s"

definition NL :: nat where
  "NL = 10"

text \<open>\<open>format(s, '>w')\<close>: pad with spaces on the left up to width \<open>w\<close>, never truncate.\<close>

definition rjust :: "nat \<Rightarrow> ustring \<Rightarrow> ustring" where
  "rjust width s = replicate (width - length s) 32 @ s"

text \<open>\<open>sub in s\<close> on strings: \<open>sub\<close> occurs as a contiguous substring of \<open>s\<close>.\<close>

fun py_in :: "ustring \<Rightarrow> ustring \<Rightarrow> bool" where
  "py_in sub [] = (sub = [])"
| "py_in sub (c # cs) = (take (length sub) (c # cs) = sub \<or> py_in sub cs)"

text \<open>The code points for which \<open>str.isspace\<close> holds; \<open>str.strip()\<close> removes them at both ends.\<close>

definition is_space :: "nat \<Rightarrow> bool" where
  "is_space c \<longleftrightarrow>
     (9 \<le> c \<and> c \<le> 13) \<or> (28 \<le> c \<and> c \<le> 32) \<or> c = 133 \<or> c = 160 \<or> c = 5760 \<or>
     (8192 \<le> c \<and> c \<le> 8202) \<or> c = 8232 \<or> c = 8233 \<or> c = 8239 \<or> c = 8287 \<or> c = 12288"

definition strip :: "ustring \<Rightarrow> ustring" where
  "strip s = rev (dropWhile is_space (rev (dropWhile is_space s)))"

text \<open>
  \<open>str.lower\<close> is a parameter of the functions that call it. \<open>ascii_lower\<close> is its
  restriction to texts whose only cased code points are ASCII letters.
\<close>

definition ascii_lower :: "ustring \<Rightarrow> ustring" where
  "ascii_lower s = map (\<lambda>c. if 65 \<le> c \<and> c \<le> 90 then c + 32 else c) s"

text \<open>Truth value of an \<open>Optional[str]\<close>: \<open>None\<close> and the empty string are false.\<close>

definition truthy :: "ustring option \<Rightarrow> bool" where
  "truthy s \<longleftrightarrow> (case s of None \<Rightarrow> False | Some t \<Rightarrow> t \<noteq> [])"

text \<open>The slice \<open>xs[-n:]\<close> for \<open>n > 0\<close>: the last \<open>n\<close> elements, or all of a shorter list.\<close>

definition last_n :: "nat \<Rightarrow> 'a list \<Rightarrow> 'a list" where
  "last_n n xs = drop (length xs - n) xs"


section \<open>Message chunking\<close>

text \<open>\<open>message.split('\n')\<close>: always at least one piece, the pieces hold no newline.\<close>

fun split_lines :: "ustring \<Rightarrow> ustring list" where
  "split_lines [] = [[]]"
| "split_lines (c # cs) =
     (if c = NL then [] # split_lines cs
      else (c # hd (split_lines cs)) # tl (split_lines cs))"

text \<open>
  The loop of \<open>InteractiveSMPBot._split_message\<close> over the remaining lines, with the
  list \<open>parts\<close> and the string \<open>current_part\<close> as its state.
\<close>

fun split_loop :: "int \<Rightarrow> ustring list \<Rightarrow> ustring list \<Rightarrow> ustring \<Rightarrow> ustring list \<times> ustring" where
  "split_loop max_length [] parts current_part = (parts, current_part)"
| "split_loop max_length (line # lines) parts current_part =
     (if int (length current_part) + int (length line) + 1 > max_length
      then split_loop max_length lines (parts @ [current_part]) (line @ [NL])
      else split_loop max_length lines parts (current_part @ line @ [NL]))"

definition split_message :: "ustring \<Rightarrow> int \<Rightarrow> ustring list" where
  "split_message message max_length =
     (case split_loop max_length (split_lines message) [] [] of
        (parts, current_part) \<Rightarrow>
          if current_part \<noteq> [] then parts @ [current_part] else parts)"

text \<open>
  \<open>TelegramBot.send_message\<close> of the scheduled program runs the same loop inline and hands
  each closed part to the transport at once. The model returns the texts handed over, in
  order: \<open>Part n body\<close> stands for the text \<open>[Part n]\<close>, a newline and \<open>body\<close>. Every
  delivery is taken to succeed (a failed one is re-raised by the source).
\<close>

datatype sent = Part nat ustring | Whole ustring

fun send_loop :: "int \<Rightarrow> ustring list \<Rightarrow> sent list \<Rightarrow> ustring \<Rightarrow> nat \<Rightarrow> sent list \<times> ustring \<times> nat" where
  "send_loop max_length [] out current_message part_number = (out, current_message, part_number)"
| "send_loop max_length (line # lines) out current_message part_number =
     (if int (length current_message) + int (length line) + 1 > max_length
      then send_loop max_length lines (out @ [Part part_number current_message])
             (line @ [NL]) (part_number + 1)
      else send_loop max_length lines out (current_message @ line @ [NL]) part_number)"

definition send_message :: "ustring \<Rightarrow> sent list" where
  "send_message message =
     (let max_length = 4000 in
      if int (length message) > max_length then
        (case send_loop max_length (split_lines message) [] [] 1 of
           (out, current_message, part_number) \<Rightarrow>
             if current_message \<noteq> [] then out @ [Part part_number current_message] else out)
      else [Whole message])"

text \<open>The text of a delivery without its part prefix.\<close>

fun body :: "sent \<Rightarrow> ustring" where
  "body (Part n b) = b"
| "body (Whole b) = b"

text \<open>A line with the newline the chunker appends, and a group of lines glued into a part.\<close>

definition terminated :: "ustring \<Rightarrow> ustring" where
  "terminated line = line @ [NL]"

definition glue :: "ustring list \<Rightarrow> ustring" where
  "glue g = concat (map terminated g)"

text \<open>
  The size condition on one part of a message with the given lines: empty, within the
  limit, or exactly one line of the message whose length plus one (its newline) is over
  the limit.
\<close>

definition part_ok :: "int \<Rightarrow> ustring list \<Rightarrow> ustring \<Rightarrow> bool" where
  "part_ok L lines p \<longleftrightarrow>
     p = [] \<or> int (length p) \<le> L \<or>
     (\<exists>line \<in> set lines. p = line @ [NL] \<and> int (length line) + 1 > L)"


section \<open>Tables\<close>

text \<open>
  The \<open>DataFrame\<close> that \<open>pandas.read_html\<close> returns: the column labels (the first names the
  label column, the others are the date columns) and the rows. A row is its label, the
  value in the first column as \<open>astype(str)\<close> shows it, and what a lookup by each column
  label gives. A cell is missing (\<open>pd.notna\<close> is false) or present; a present cell is known
  by its text, which is what \<open>str\<close> and \<open>format\<close> print. Under a label that several columns
  carry a lookup gives no single cell but all the values under it: testing its truth
  raises, and its entry in \<open>cells\<close> holds the text that printing it gives.
\<close>

datatype cell = NaN | Val ustring

record row =
  label :: ustring
  cells :: "ustring \<Rightarrow> cell"

record dataframe =
  columns :: "ustring list"
  rows :: "row list"

text \<open>\<open>df.empty\<close>: one of the two axes has length 0.\<close>

definition df_empty :: "dataframe \<Rightarrow> bool" where
  "df_empty df \<longleftrightarrow> columns df = [] \<or> rows df = []"

text \<open>\<open>str(value)\<close> of a cell, as an f-string prints it.\<close>

definition cell_str :: "cell \<Rightarrow> ustring" where
  "cell_str c = (case c of NaN \<Rightarrow> ascii ''nan'' | Val t \<Rightarrow> t)"

text \<open>
  \<open>str.contains('h$', regex=True)\<close> searches the label for the letter h at the end of the
  string, or just before a newline that ends the string.
\<close>

definition is_hourly :: "ustring \<Rightarrow> bool" where
  "is_hourly l \<longleftrightarrow>
     (l \<noteq> [] \<and> last l = 104) \<or>
     (length l \<ge> 2 \<and> last l = NL \<and> last (butlast l) = 104)"

definition hourly_data :: "dataframe \<Rightarrow> row list" where
  "hourly_data df = filter (\<lambda>r. is_hourly (label r)) (rows df)"

text \<open>The rows \<open>df[df.iloc[:, 0] == name]\<close>, as a frame with the same columns.\<close>

definition rows_labelled :: "dataframe \<Rightarrow> ustring \<Rightarrow> dataframe" where
  "rows_labelled df name = df\<lparr>rows := filter (\<lambda>r. label r = name) (rows df)\<rparr>"

text \<open>The three aggregate labels: maximum, minimum, weighted average.\<close>

definition label_max :: ustring where
  "label_max = [52572, 45824]"

definition label_min :: ustring where
  "label_min = [52572, 49548]"

definition label_avg :: ustring where
  "label_avg = [44032, 51473, 54217, 44512]"

text \<open>The unit suffix of every value line: a space, the won sign word, \<open>/kWh\<close>, a newline.\<close>

definition unit_suffix :: ustring where
  "unit_suffix = [32, 50896] @ ascii ''/kWh'' @ [NL]"

text \<open>The three severity markers: red, yellow and green circle.\<close>

definition marker_high :: ustring where
  "marker_high = [128308]"

definition marker_medium :: ustring where
  "marker_medium = [128993]"

definition marker_low :: ustring where
  "marker_low = [128994]"

text \<open>
  A Python \<open>float\<close>: a finite value, which is a real number, or one of the three special
  values. \<open>float_gt x t\<close> is the comparison \<open>x > t\<close> with a finite threshold: true of plus
  infinity, false of minus infinity and of nan.
\<close>

datatype pyfloat = Finite real | PosInf | NegInf | NotANumber

definition float_gt :: "pyfloat \<Rightarrow> real \<Rightarrow> bool" where
  "float_gt x t =
     (case x of Finite v \<Rightarrow> v > t | PosInf \<Rightarrow> True | NegInf \<Rightarrow> False | NotANumber \<Rightarrow> False)"

definition severity_marker :: "pyfloat \<Rightarrow> ustring" where
  "severity_marker val_float =
     (if float_gt val_float 120 then marker_high
      else if float_gt val_float 90 then marker_medium
      else marker_low)"

text \<open>
  One pass of the inner loop over the hourly rows, in both formatters, for a cell under a
  label that one column carries: nothing for a missing cell, a marked line when
  \<open>float(value)\<close> succeeds, and the line without a marker from the \<open>except\<close> branch when it
  raises. What \<open>float()\<close> makes of the text of a present cell is the parameter \<open>py_float\<close>:
  \<open>None\<close> when the conversion raises, the float otherwise.
\<close>

definition hourly_line :: "(ustring \<Rightarrow> pyfloat option) \<Rightarrow> ustring \<Rightarrow> cell \<Rightarrow> ustring" where
  "hourly_line py_float time_slot c =
     (case c of
        NaN \<Rightarrow> []
      | Val v \<Rightarrow>
          (case py_float v of
             Some val_float \<Rightarrow>
               severity_marker val_float @ [32] @ rjust 3 time_slot @ ascii '': '' @ rjust 7 v
                 @ unit_suffix
           | None \<Rightarrow>
               ascii ''  '' @ rjust 3 time_slot @ ascii '': '' @ rjust 7 v @ unit_suffix))"

definition hourly_lines :: "(ustring \<Rightarrow> pyfloat option) \<Rightarrow> dataframe \<Rightarrow> ustring \<Rightarrow> ustring" where
  "hourly_lines py_float df date_col =
     concat (map (\<lambda>r. hourly_line py_float (label r) (cells r date_col)) (hourly_data df))"

text \<open>The "no data" and "no hourly data" notices (a warning sign and a Korean sentence).\<close>

definition no_data_text :: ustring where
  "no_data_text =
     [9888, 65039, 32, 45936, 51060, 53552, 47484, 32, 44032, 51256, 50732, 32, 49688, 32,
      50630, 49845, 45768, 45796, 46]"

definition no_hourly_text :: ustring where
  "no_hourly_text =
     [9888, 65039, 32, 49884, 44036, 45824, 48324, 32, 45936, 51060, 53552, 47484, 32, 52286,
      51012, 32, 49688, 32, 50630, 49845, 45768, 45796, 46]"


text \<open>
  A label that more than one column of the table carries. In the loop over the hourly
  rows \<open>row[date_col]\<close> is then a \<open>Series\<close>, and \<open>if pd.notna(value)\<close> raises \<open>ValueError\<close> with
  the message below; the handler around the whole of \<open>format_smp_data\<close> turns it into the
  error text of the formatter.
\<close>

definition repeated :: "dataframe \<Rightarrow> ustring \<Rightarrow> bool" where
  "repeated df col \<longleftrightarrow> count_list (columns df) col > 1"

definition ambiguous_truth_text :: ustring where
  "ambiguous_truth_text =
     ascii ''The truth value of a Series is ambiguous. ''
     @ ascii ''Use a.empty, a.bool(), a.item(), a.any() or a.all().''"

text \<open>
  The error texts of the two formatters, before the message of the exception: a cross
  mark and a Korean sentence ending in a colon and a space.
\<close>

definition error_prefix_bot :: ustring where
  "error_prefix_bot =
     [10060, 32, 50724, 47448, 44032, 32, 48156, 49373, 54664, 49845, 45768, 45796, 58, 32]"

definition error_prefix_info :: ustring where
  "error_prefix_info =
     [10060, 32, 45936, 51060, 53552, 32, 54252, 47607, 54021, 32, 51473, 32, 50724, 47448,
      44032, 32, 48156, 49373, 54664, 49845, 45768, 45796, 58, 32]"

section \<open>The interactive formatter, \<open>smp_bot_interactive.py\<close>\<close>

text \<open>
  The choice of date columns in \<open>SMPCrawler.format_smp_data\<close>: every column after the
  first when a filter is given, the last three of them (or all, when there are at most
  three) otherwise.
\<close>

definition selected_dates :: "dataframe \<Rightarrow> ustring option \<Rightarrow> ustring list" where
  "selected_dates df date_filter =
     (let date_columns = tl (columns df) in
      if truthy date_filter then date_columns
      else if length date_columns > 3 then last_n 3 date_columns else date_columns)"

definition report_header_bot :: "ustring \<Rightarrow> bool \<Rightarrow> ustring" where
  "report_header_bot today is_jeju =
     (let region_icon = (if is_jeju then [127965] else [127757]);
          region_name = (if is_jeju then [51228, 51452] else [50977, 51648])
      in region_icon @ ascii '' <b>KPX SMP '' @ [45936, 51060, 53552] @ ascii '' - ''
           @ region_name @ ascii ''</b>'' @ [NL]
         @ [128467, 32, 51312, 54924, 51068, 49884, 58, 32] @ today @ [NL]
         @ replicate 40 61 @ [NL, NL])"

text \<open>One aggregate line of a date section, present when a row carries the label.\<close>

definition stat_line :: "dataframe \<Rightarrow> ustring \<Rightarrow> ustring \<Rightarrow> ustring \<Rightarrow> ustring" where
  "stat_line df name prefix date_col =
     (let stat_row = rows_labelled df name in
      if \<not> df_empty stat_row \<and> date_col \<in> set (columns stat_row)
      then prefix @ cell_str (cells (hd (rows stat_row)) date_col) @ unit_suffix
      else [])"

definition date_section_bot :: "(ustring \<Rightarrow> pyfloat option) \<Rightarrow> dataframe \<Rightarrow> ustring \<Rightarrow> ustring" where
  "date_section_bot py_float df date_col =
     ascii ''<b>'' @ [128197, 32] @ date_col @ ascii ''</b>'' @ [NL]
     @ replicate 30 45 @ [NL]
     @ stat_line df label_max ([128308, 32] @ label_max @ ascii '': '') date_col
     @ stat_line df label_min ([128994, 32] @ label_min @ ascii '': '') date_col
     @ stat_line df label_avg ([128202, 32, 54217, 44512] @ ascii '': '') date_col
     @ [NL]
     @ hourly_lines py_float df date_col
     @ [NL]"

definition report_footer_bot :: "ustring \<Rightarrow> ustring" where
  "report_footer_bot now =
     replicate 40 61 @ [NL]
     @ [128204, 32, 52636, 52376, 58, 32] @ ascii ''KPX ''
     @ [54620, 44397, 51204, 47141, 44144, 47000, 49548, NL]
     @ [128336, 32] @ now"

text \<open>
  The body of the \<open>try\<close> of \<open>SMPCrawler.format_smp_data\<close> in the interactive program: \<open>Inr\<close>
  is the text returned, \<open>Inl\<close> the message of an exception on its way to the handler.
  \<open>today\<close> and \<open>now\<close> are the two texts \<open>datetime.now()\<close> is formatted to (the date in the
  header, the time in the footer). Past the two early returns the table has hourly rows,
  so the loop over them runs for every selected column and raises at the first one whose
  label is repeated.
\<close>

definition format_try_bot ::
  "(ustring \<Rightarrow> pyfloat option) \<Rightarrow> ustring \<Rightarrow> ustring \<Rightarrow> dataframe option \<Rightarrow> ustring option \<Rightarrow> bool \<Rightarrow> ustring + ustring" where
  "format_try_bot py_float today now df_opt date_filter is_jeju =
     (case df_opt of
        None \<Rightarrow> Inr no_data_text
      | Some df \<Rightarrow>
          if df_empty df then Inr no_data_text
          else
            let message = report_header_bot today is_jeju in
            if hourly_data df = [] then Inr (message @ no_hourly_text)
            else if list_ex (repeated df) (selected_dates df date_filter)
            then Inl ambiguous_truth_text
            else Inr (message
                 @ concat (map (date_section_bot py_float df) (selected_dates df date_filter))
                 @ report_footer_bot now))"

text \<open>The function itself: its handler returns the error text with the message.\<close>

definition format_smp_data_bot ::
  "(ustring \<Rightarrow> pyfloat option) \<Rightarrow> ustring \<Rightarrow> ustring \<Rightarrow> dataframe option \<Rightarrow> ustring option \<Rightarrow> bool \<Rightarrow> ustring" where
  "format_smp_data_bot py_float today now df_opt date_filter is_jeju =
     (case format_try_bot py_float today now df_opt date_filter is_jeju of
        Inl msg \<Rightarrow> error_prefix_bot @ msg
      | Inr message \<Rightarrow> message)"


section \<open>The scheduled formatter, \<open>smp_information.py\<close>\<close>

definition report_header_info :: "ustring \<Rightarrow> ustring" where
  "report_header_info today =
     [128202, 32] @ ascii ''<b>KPX '' @ [49884, 44036, 45824, 48324] @ ascii '' SMP ''
       @ [45936, 51060, 53552] @ ascii ''</b>'' @ [NL]
     @ [128467, 32] @ today @ [NL]
     @ replicate 50 61 @ [NL, NL]"

text \<open>One block of the weekly summary: a bullet line per date column when the row exists.\<close>

definition summary_block :: "dataframe \<Rightarrow> ustring \<Rightarrow> ustring" where
  "summary_block df name =
     (let stat_row = rows_labelled df name in
      concat (map (\<lambda>col.
        if \<not> df_empty stat_row \<and> col \<in> set (columns stat_row)
        then [32, 32, 8226, 32] @ col @ ascii '': '' @ cell_str (cells (hd (rows stat_row)) col)
               @ unit_suffix
        else []) (tl (columns df))))"

definition weekly_summary :: "dataframe \<Rightarrow> ustring" where
  "weekly_summary df =
     (if label_max \<in> set (map label (rows df)) then
        [NL] @ ascii ''<b>'' @ [52572, 45824, 44050] @ ascii '':</b>'' @ [NL]
        @ summary_block df label_max
        @ [NL] @ ascii ''<b>'' @ [52572, 49548, 44050] @ ascii '':</b>'' @ [NL]
        @ summary_block df label_min
        @ [NL] @ ascii ''<b>'' @ label_avg @ ascii '':</b>'' @ [NL]
        @ summary_block df label_avg
      else [])"

definition date_section_info :: "(ustring \<Rightarrow> pyfloat option) \<Rightarrow> dataframe \<Rightarrow> ustring \<Rightarrow> ustring" where
  "date_section_info py_float df date_col =
     [NL] @ ascii ''<b>'' @ [128197, 32] @ date_col @ ascii ''</b>'' @ [NL]
     @ replicate 30 45 @ [NL]
     @ hourly_lines py_float df date_col"

definition report_footer_info :: "ustring \<Rightarrow> ustring" where
  "report_footer_info now =
     [NL] @ replicate 50 61 @ [NL]
     @ [128204, 32, 45936, 51060, 53552, 32, 52636, 52376, 58, 32] @ ascii ''KPX ''
     @ [54620, 44397, 51204, 47141, 44144, 47000, 49548, NL]
     @ [128336, 32, 50629, 45936, 51060, 53944, 58, 32] @ now"

text \<open>
  The body of the \<open>try\<close> of \<open>SMPCrawler.format_smp_data\<close> in the scheduled program: the
  header is built before the table is looked at, and every date column is shown. When the
  table has hourly rows the loop over them raises at the first date column whose label
  is repeated.
\<close>

definition format_try_info ::
  "(ustring \<Rightarrow> pyfloat option) \<Rightarrow> ustring \<Rightarrow> ustring \<Rightarrow> dataframe option \<Rightarrow> ustring + ustring" where
  "format_try_info py_float today now df_opt =
     (let message = report_header_info today in
      case df_opt of
        None \<Rightarrow> Inr (message @ no_data_text)
      | Some df \<Rightarrow>
          if df_empty df then Inr (message @ no_data_text)
          else if hourly_data df \<noteq> [] \<and> list_ex (repeated df) (tl (columns df))
          then Inl ambiguous_truth_text
          else Inr (
            message
            @ [128200, 32] @ ascii ''<b>'' @ [51452, 44036, 32, 50836, 50557] @ ascii ''</b>'' @ [NL]
            @ weekly_summary df
            @ [NL] @ replicate 50 61 @ [NL, NL]
            @ [9200, 32] @ ascii ''<b>'' @ [49884, 44036, 45824, 48324, 32, 49345, 49464, 32,
                 45936, 51060, 53552] @ ascii ''</b>'' @ [NL, NL]
            @ (if hourly_data df \<noteq> []
               then concat (map (date_section_info py_float df) (tl (columns df)))
               else no_hourly_text @ [NL])
            @ report_footer_info now))"

definition format_smp_data_info ::
  "(ustring \<Rightarrow> pyfloat option) \<Rightarrow> ustring \<Rightarrow> ustring \<Rightarrow> dataframe option \<Rightarrow> ustring" where
  "format_smp_data_info py_float today now df_opt =
     (case format_try_info py_float today now df_opt of
        Inl msg \<Rightarrow> error_prefix_info @ msg
      | Inr message \<Rightarrow> message)"

section \<open>Date filters\<close>

text \<open>
  The decimal digits that \<open>\d\<close> of the \<open>re\<close> module matches in a \<open>str\<close>: the code points of
  category Nd, which come in runs of ten. The list holds the zero of each run in
  Unicode 14, the version of CPython 3.11.
\<close>

definition digit_zeros :: "nat list" where
  "digit_zeros =
     [48, 1632, 1776, 1984, 2406, 2534, 2662, 2790, 2918, 3046, 3174, 3302, 3430, 3558, 3664,
      3792, 3872, 4160, 4240, 6112, 6160, 6470, 6608, 6784, 6800, 6992, 7088, 7232, 7248,
      42528, 43216, 43264, 43472, 43504, 43600, 44016, 65296, 66720, 68912, 69734, 69872,
      69942, 70096, 70384, 70736, 70864, 71248, 71360, 71472, 71904, 72016, 72784, 73040,
      73120, 92768, 92864, 93008, 120782, 120792, 120802, 120812, 120822, 123200, 123632,
      125264, 130032]"

definition is_digit :: "nat \<Rightarrow> bool" where
  "is_digit c \<longleftrightarrow> list_ex (\<lambda>z. z \<le> c \<and> c < z + 10) digit_zeros"

text \<open>The ASCII digits.\<close>

definition is_ascii_digit :: "nat \<Rightarrow> bool" where
  "is_ascii_digit c \<longleftrightarrow> 48 \<le> c \<and> c \<le> 57"

text \<open>The patterns \<open>^(\d{4}-\d{2}-\d{2})$\<close> and \<open>^(\d{2})\.(\d{2})$\<close> on a stripped string.\<close>

definition single_pattern :: "ustring \<Rightarrow> bool" where
  "single_pattern s \<longleftrightarrow>
     length s = 10 \<and> list_all is_digit (take 4 s) \<and> s ! 4 = 45 \<and>
     list_all is_digit (take 2 (drop 5 s)) \<and> s ! 7 = 45 \<and> list_all is_digit (drop 8 s)"

definition short_pattern :: "ustring \<Rightarrow> bool" where
  "short_pattern s \<longleftrightarrow>
     length s = 5 \<and> list_all is_digit (take 2 s) \<and> s ! 2 = 46 \<and> list_all is_digit (drop 3 s)"

text \<open>
  \<open>InteractiveSMPBot._parse_date\<close>; \<open>year\<close> is the current year in decimal, as the f-string
  prints \<open>datetime.now().year\<close>.
\<close>

definition parse_date :: "ustring \<Rightarrow> ustring \<Rightarrow> ustring option" where
  "parse_date year date_filter =
     (let s = strip date_filter in
      if single_pattern s then Some s
      else if short_pattern s then Some (year @ [45] @ take 2 s @ [45] @ drop 3 s)
      else None)"

text \<open>
  The month.day text of a date \<open>YYYY-MM-DD\<close> written in ASCII digits, as \<open>strptime\<close> with
  \<open>%Y-%m-%d\<close> followed by \<open>strftime\<close> with \<open>%m.%d\<close> gives it; \<open>None\<close> when the text is no
  such calendar date.
\<close>

definition ascii_date_pattern :: "ustring \<Rightarrow> bool" where
  "ascii_date_pattern s \<longleftrightarrow>
     length s = 10 \<and> list_all is_ascii_digit (take 4 s) \<and> s ! 4 = 45 \<and>
     list_all is_ascii_digit (take 2 (drop 5 s)) \<and> s ! 7 = 45 \<and>
     list_all is_ascii_digit (drop 8 s)"

fun digits_value :: "ustring \<Rightarrow> nat \<Rightarrow> nat" where
  "digits_value [] acc = acc"
| "digits_value (c # cs) acc = digits_value cs (10 * acc + (c - 48))"

definition days_in_month :: "nat \<Rightarrow> nat \<Rightarrow> nat" where
  "days_in_month y m =
     (if m = 2 then
        (if y mod 400 = 0 then 29 else if y mod 100 = 0 then 28
         else if y mod 4 = 0 then 29 else 28)
      else if m = 4 \<or> m = 6 \<or> m = 9 \<or> m = 11 then 30 else 31)"

definition month_day :: "ustring \<Rightarrow> ustring option" where
  "month_day d =
     (if ascii_date_pattern d then
        (let y = digits_value (take 4 d) 0;
             m = digits_value (take 2 (drop 5 d)) 0;
             dd = digits_value (drop 8 d) 0
         in if 1 \<le> y \<and> 1 \<le> m \<and> m \<le> 12 \<and> 1 \<le> dd \<and> dd \<le> days_in_month y m
            then Some (take 2 (drop 5 d) @ [46] @ drop 8 d)
            else None)
      else None)"

text \<open>The keywords for today (the Korean word, \<open>today\<close>) and for this week.\<close>

definition today_keywords :: "ustring list" where
  "today_keywords = [[50724, 45720], ascii ''today'']"

definition week_keywords :: "ustring list" where
  "week_keywords = [[51060, 48264, 51452], ascii ''week'', [51452, 44036]]"

text \<open>
  \<open>SMPCrawler._filter_dates\<close>. \<open>lower\<close> is \<open>str.lower\<close> and \<open>today_str\<close> is today as \<open>%m.%d\<close>.
  After the two keyword branches the source calls \<open>self._parse_date\<close>, a method that
  \<open>SMPCrawler\<close> does not define (it belongs to \<open>InteractiveSMPBot\<close>): the call raises
  \<open>AttributeError\<close> inside the function's \<open>try\<close>, and the handler returns the last three
  columns. No caller of \<open>_filter_dates\<close> exists in the repository.
\<close>

definition filter_dates :: "(ustring \<Rightarrow> ustring) \<Rightarrow> ustring \<Rightarrow> ustring list \<Rightarrow> ustring \<Rightarrow> ustring list" where
  "filter_dates lower today_str date_columns date_filter =
     (let date_filter_lower = lower (strip date_filter) in
      if date_filter_lower \<in> set today_keywords then
        (let filtered = filter (py_in today_str) date_columns
         in if filtered \<noteq> [] then filtered else last_n 1 date_columns)
      else if date_filter_lower \<in> set week_keywords then date_columns
      else last_n 3 date_columns)"

text \<open>
  The selection the specification describes for a date filter with month.day text
  \<open>target_str\<close>: the columns containing it, or the last three when none does.
\<close>

definition spec_date_selection :: "ustring \<Rightarrow> ustring list \<Rightarrow> ustring list" where
  "spec_date_selection target_str date_columns =
     (let filtered = filter (py_in target_str) date_columns
      in if filtered \<noteq> [] then filtered else last_n 3 date_columns)"

text \<open>
  The selection the specification describes for the today filter: the columns containing
  today's month.day text, or the single last column when none does.
\<close>

definition spec_today_selection :: "ustring \<Rightarrow> ustring list \<Rightarrow> ustring list" where
  "spec_today_selection today_str date_columns =
     (let filtered = filter (py_in today_str) date_columns
      in if filtered \<noteq> [] then filtered else last_n 1 date_columns)"

text \<open>The label pattern the specification names: one or more digits followed by h.\<close>

definition spec_integer_h :: "ustring \<Rightarrow> bool" where
  "spec_integer_h l \<longleftrightarrow>
     l \<noteq> [] \<and> last l = 104 \<and> butlast l \<noteq> [] \<and> list_all is_ascii_digit (butlast l)"


section \<open>Fetching the table\<close>

text \<open>
  A parsed page is the list of its elements in document order, which is the order
  \<open>BeautifulSoup.find\<close> searches in. An element has a tag name, the tokens of its class
  attribute, its other attributes and its markup.
\<close>

record element =
  tag :: ustring
  classes :: "ustring list"
  attrs :: "(ustring \<times> ustring) list"
  markup :: ustring

type_synonym document = "element list"

record response =
  status_code :: nat
  content :: document

text \<open>The exceptions the fetch can meet.\<close>

datatype exn = Timeout | ConnectionError | HTTPError nat | ValueError

text \<open>
  What lies outside the program: the server's answer to a GET of a URL, its answer to the
  POST of a session that has made the GET before (URL, form data, query parameters), and
  \<open>pandas.read_html\<close> on the markup of a table element, which raises \<open>ValueError\<close> when it
  finds no table to read. A request either raises or returns a response.
\<close>

record environment =
  http_get :: "ustring \<Rightarrow> exn + response"
  session_post :: "response \<Rightarrow> ustring \<Rightarrow> (ustring \<times> ustring) list \<Rightarrow> (ustring \<times> ustring) list \<Rightarrow> exn + response"
  read_html :: "element \<Rightarrow> exn + dataframe"

definition base_url :: ustring where
  "base_url = ascii ''https://new.kpx.or.kr/smpInland.es?mid=a10606080100&device=pc''"

definition api_url :: ustring where
  "api_url = ascii ''https://new.kpx.or.kr/smpInland.es''"

definition jeju_base_url :: ustring where
  "jeju_base_url = ascii ''https://new.kpx.or.kr/smpInland.es?mid=a10606080200&device=pc''"

definition jeju_api_url :: ustring where
  "jeju_api_url = ascii ''https://new.kpx.or.kr/smpInland.es''"

text \<open>\<open>soup.find(name, {attr: value})\<close> and \<open>soup.find(name)\<close>: the first such element.\<close>

definition is_table :: "element \<Rightarrow> bool" where
  "is_table e \<longleftrightarrow> tag e = ascii ''table''"

definition is_con_table :: "element \<Rightarrow> bool" where
  "is_con_table e \<longleftrightarrow> tag e = ascii ''table'' \<and> ascii ''conTable'' \<in> set (classes e)"

definition is_csrf_input :: "element \<Rightarrow> bool" where
  "is_csrf_input e \<longleftrightarrow>
     tag e = ascii ''input'' \<and> map_of (attrs e) (ascii ''name'') = Some (ascii ''_csrf'')"

text \<open>The token of the page: the \<open>value\<close> of the first \<open>_csrf\<close> input, or the empty string.\<close>

definition csrf_token :: "document \<Rightarrow> ustring" where
  "csrf_token doc =
     (case find is_csrf_input doc of
        None \<Rightarrow> []
      | Some csrf_input \<Rightarrow>
          (case map_of (attrs csrf_input) (ascii ''value'') of None \<Rightarrow> [] | Some v \<Rightarrow> v))"

text \<open>\<open>response.raise_for_status()\<close> raises for the status codes from 400 to 599.\<close>

definition raise_for_status :: "response \<Rightarrow> exn + unit" where
  "raise_for_status r =
     (if 400 \<le> status_code r \<and> status_code r < 600 then Inl (HTTPError (status_code r))
      else Inr ())"

text \<open>
  The requests of \<open>fetch_smp_data\<close>: with a date, a GET whose status is not looked at, for
  the token, then the POST; without one, a single GET. \<open>base\<close>, \<open>api\<close> and \<open>mid_param\<close> are
  the URLs and the routing parameter of the region.
\<close>

definition request_page :: "environment \<Rightarrow> ustring \<Rightarrow> ustring \<Rightarrow> ustring \<Rightarrow> ustring option \<Rightarrow> exn + response" where
  "request_page env base api mid_param target_date =
     (case target_date of
        None \<Rightarrow> http_get env base
      | Some d \<Rightarrow>
          if d = [] then http_get env base
          else
            (case http_get env base of
               Inl e \<Rightarrow> Inl e
             | Inr get_response \<Rightarrow>
                 session_post env get_response api
                   [(ascii ''issue_date'', d), (ascii ''_csrf'', csrf_token (content get_response))]
                   [(ascii ''mid'', mid_param), (ascii ''device'', ascii ''pc'')]))"

text \<open>The table the interactive program takes from a page, and the one the scheduled one takes.\<close>

definition find_table_bot :: "document \<Rightarrow> element option" where
  "find_table_bot doc = find is_con_table doc"

definition find_table_info :: "document \<Rightarrow> element option" where
  "find_table_info doc =
     (case find is_con_table doc of
        Some table \<Rightarrow> Some table
      | None \<Rightarrow> find is_table doc)"

text \<open>The part of \<open>fetch_smp_data\<close> after the requests, given how the table is looked for.\<close>

definition extract_table :: "environment \<Rightarrow> (document \<Rightarrow> element option) \<Rightarrow> response \<Rightarrow> exn + dataframe option" where
  "extract_table env find_table r =
     (case raise_for_status r of
        Inl e \<Rightarrow> Inl e
      | Inr _ \<Rightarrow>
          (case find_table (content r) of
             None \<Rightarrow> Inr None
           | Some table \<Rightarrow>
               (case read_html env table of
                  Inl e \<Rightarrow> Inl e
                | Inr df \<Rightarrow> Inr (Some df))))"

text \<open>
  The requests of the interactive program, with the URLs and the routing parameter of the
  region, and those of the scheduled program, which knows the mainland only.
\<close>

definition request_bot :: "environment \<Rightarrow> ustring option \<Rightarrow> bool \<Rightarrow> exn + response" where
  "request_bot env target_date is_jeju =
     (let base = (if is_jeju then jeju_base_url else base_url);
          api = (if is_jeju then jeju_api_url else api_url);
          mid_param = (if is_jeju then ascii ''a10606080200'' else ascii ''a10606080100'')
      in request_page env base api mid_param target_date)"

definition request_info :: "environment \<Rightarrow> ustring option \<Rightarrow> exn + response" where
  "request_info env target_date =
     request_page env base_url api_url (ascii ''a10606080100'') target_date"

text \<open>
  The body of the \<open>try\<close> of \<open>SMPCrawler.fetch_smp_data\<close> in the interactive program: \<open>Inl\<close> is
  an exception on its way to the handler, \<open>Inr\<close> the value returned.
\<close>

definition fetch_try_bot :: "environment \<Rightarrow> ustring option \<Rightarrow> bool \<Rightarrow> exn + dataframe option" where
  "fetch_try_bot env target_date is_jeju =
     (case request_bot env target_date is_jeju of
        Inl e \<Rightarrow> Inl e
      | Inr r \<Rightarrow> extract_table env find_table_bot r)"

text \<open>The function itself: its handler turns every exception into \<open>None\<close>.\<close>

definition fetch_smp_data_bot :: "environment \<Rightarrow> ustring option \<Rightarrow> bool \<Rightarrow> dataframe option" where
  "fetch_smp_data_bot env target_date is_jeju =
     (case fetch_try_bot env target_date is_jeju of Inl e \<Rightarrow> None | Inr result \<Rightarrow> result)"

text \<open>
  The same for \<open>SMPCrawler.fetch_smp_data\<close> of the scheduled program; both of its handlers
  return \<open>None\<close>.
\<close>

definition fetch_try_info :: "environment \<Rightarrow> ustring option \<Rightarrow> exn + dataframe option" where
  "fetch_try_info env target_date =
     (case request_info env target_date of
        Inl e \<Rightarrow> Inl e
      | Inr r \<Rightarrow> extract_table env find_table_info r)"

definition fetch_smp_data_info :: "environment \<Rightarrow> ustring option \<Rightarrow> dataframe option" where
  "fetch_smp_data_info env target_date =
     (case fetch_try_info env target_date of Inl e \<Rightarrow> None | Inr result \<Rightarrow> result)"


section \<open>Sample inputs\<close>

text \<open>A table of one week, 09.24 to 09.30, with two hourly rows and the maximum row.\<close>

definition week_columns :: "ustring list" where
  "week_columns =
     [[44396, 48516], ascii ''09.24'', ascii ''09.25'', ascii ''09.26'', ascii ''09.27'',
      ascii ''09.28'', ascii ''09.29'', ascii ''09.30'']"

definition week_table :: dataframe where
  "week_table =
     \<lparr>columns = week_columns,
      rows = [\<lparr>label = ascii ''1h'', cells = (\<lambda>col. Val (ascii ''150''))\<rparr>,
              \<lparr>label = ascii ''2h'', cells = (\<lambda>col. Val (ascii ''85.5''))\<rparr>,
              \<lparr>label = label_max, cells = (\<lambda>col. Val (ascii ''150''))\<rparr>]\<rparr>"

text \<open>A table with three date columns and one with a row labelled "high".\<close>

definition three_day_table :: dataframe where
  "three_day_table = week_table\<lparr>columns := [[44396, 48516], ascii ''09.28'', ascii ''09.29'', ascii ''09.30'']\<rparr>"

definition high_row_table :: dataframe where
  "high_row_table =
     \<lparr>columns = [[44396, 48516], ascii ''09.30''],
      rows = [\<lparr>label = ascii ''high'', cells = (\<lambda>col. Val (ascii ''1''))\<rparr>,
              \<lparr>label = ascii ''24h'', cells = (\<lambda>col. Val (ascii ''2''))\<rparr>]\<rparr>"

text \<open>Two table elements, one with the class marker and one without, and a token input.\<close>

definition plain_table :: element where
  "plain_table = \<lparr>tag = ascii ''table'', classes = [], attrs = [], markup = ascii ''<table>''\<rparr>"

definition con_table :: element where
  "con_table =
     \<lparr>tag = ascii ''table'', classes = [ascii ''conTable'', ascii ''tdCenter''], attrs = [],
      markup = ascii ''<table class=conTable>''\<rparr>"

definition heading :: element where
  "heading = \<lparr>tag = ascii ''h1'', classes = [], attrs = [], markup = ascii ''<h1>''\<rparr>"

text \<open>
  A server whose pages answer 200 with a plain table only, and a server that answers the
  GET with status 500 and no token and the POST with status 200 and the marked table; a
  server that times out; one that answers 503. \<open>read_html\<close> reads every table as the week.
\<close>

definition plain_server :: environment where
  "plain_server =
     \<lparr>http_get = (\<lambda>url. Inr \<lparr>status_code = 200, content = [heading, plain_table]\<rparr>),
      session_post = (\<lambda>g url form params. Inr \<lparr>status_code = 200, content = [heading, plain_table]\<rparr>),
      read_html = (\<lambda>t. Inr week_table)\<rparr>"




text \<open>
  A \<open>float()\<close> that knows the texts of the sample cells, among them \<open>NAN\<close> and \<open>inf\<close>, and
  raises on every other text.
\<close>

definition sample_float :: "ustring \<Rightarrow> pyfloat option" where
  "sample_float = [ascii ''150'' \<mapsto> Finite 150, ascii ''100'' \<mapsto> Finite 100,
                   ascii ''50'' \<mapsto> Finite 50, ascii ''85.5'' \<mapsto> Finite 85.5,
                   ascii ''1'' \<mapsto> Finite 1, ascii ''2'' \<mapsto> Finite 2,
                   ascii ''NAN'' \<mapsto> NotANumber, ascii ''inf'' \<mapsto> PosInf,
                   ascii ''-inf'' \<mapsto> NegInf]"

text \<open>The table of one week with its last date label carried by two columns.\<close>

definition repeated_label_table :: dataframe where
  "repeated_label_table = week_table\<lparr>columns := week_columns @ [ascii ''09.30'']\<rparr>"


section \<open>Lemmas on the chunker\<close>

lemma split_lines_not_Nil: "split_lines m \<noteq> []"
  by (cases m) auto

lemma glue_single: "glue [line] = line @ [NL]"
  by (simp add: glue_def terminated_def)

lemma glue_snoc: "glue (g @ [line]) = glue g @ line @ [NL]"
  by (simp add: glue_def terminated_def)

lemma glue_concat: "concat (map glue groups) = glue (concat groups)"
  by (induction groups) (simp_all add: glue_def)

lemma split_lines_join: "glue (split_lines m) = m @ [NL]"
proof (induction m)
  case Nil
  show ?case by (simp add: glue_def terminated_def)
next
  case (Cons c cs)
  obtain l ls where sl: "split_lines cs = l # ls"
    using split_lines_not_Nil [of cs] by (cases "split_lines cs") auto
  with Cons show ?case by (auto simp: glue_def terminated_def)
qed

lemma split_lines_no_NL: "l \<in> set (split_lines m) \<Longrightarrow> NL \<notin> set l"
proof (induction m arbitrary: l)
  case Nil
  then show ?case by simp
next
  case (Cons c cs)
  obtain k ks where sl: "split_lines cs = k # ks"
    using split_lines_not_Nil [of cs] by (cases "split_lines cs") auto
  with Cons show ?case by (auto split: if_splits)
qed

lemma split_lines_single: "NL \<notin> set s \<Longrightarrow> split_lines s = [s]"
  by (induction s) auto

lemma split_lines_append: "NL \<notin> set a \<Longrightarrow> split_lines (a @ NL # b) = a # split_lines b"
  by (induction a) auto

lemma split_loop_groups:
  "split_loop L ls (map glue gs) (glue g) = (parts', cur') \<Longrightarrow>
   \<exists>gs' g'. parts' = map glue gs' \<and> cur' = glue g' \<and> concat gs' @ g' = concat gs @ g @ ls"
proof (induction ls arbitrary: gs g)
  case Nil
  then show ?case by auto
next
  case (Cons line ls)
  show ?case
  proof (cases "int (length (glue g)) + int (length line) + 1 > L")
    case True
    with Cons.prems have "split_loop L ls (map glue gs @ [glue g]) (line @ [NL]) = (parts', cur')"
      by simp
    then have "split_loop L ls (map glue (gs @ [g])) (glue [line]) = (parts', cur')"
      by (simp add: glue_single)
    from Cons.IH [OF this] show ?thesis by auto
  next
    case False
    with Cons.prems have "split_loop L ls (map glue gs) (glue g @ line @ [NL]) = (parts', cur')"
      by simp
    then have "split_loop L ls (map glue gs) (glue (g @ [line])) = (parts', cur')"
      by (simp add: glue_snoc)
    from Cons.IH [OF this] show ?thesis by auto
  qed
qed

lemma split_loop_part_ok:
  "split_loop L ls parts cur = (parts', cur') \<Longrightarrow>
   \<forall>p \<in> set parts. part_ok L lines p \<Longrightarrow> part_ok L lines cur \<Longrightarrow>
   set ls \<subseteq> set lines \<Longrightarrow>
   (\<forall>p \<in> set parts'. part_ok L lines p) \<and> part_ok L lines cur'"
proof (induction ls arbitrary: parts cur)
  case Nil
  then show ?case by auto
next
  case (Cons line ls)
  have sub: "set ls \<subseteq> set lines" and mem: "line \<in> set lines"
    using Cons.prems(4) by auto
  show ?case
  proof (cases "int (length cur) + int (length line) + 1 > L")
    case True
    have new: "part_ok L lines (line @ [NL])"
    proof (cases "int (length line) + 1 > L")
      case True
      with mem show ?thesis unfolding part_ok_def by blast
    next
      case False
      then show ?thesis by (simp add: part_ok_def)
    qed
    have old: "\<forall>p \<in> set (parts @ [cur]). part_ok L lines p"
      using Cons.prems(2,3) by auto
    from True Cons.prems(1) have "split_loop L ls (parts @ [cur]) (line @ [NL]) = (parts', cur')"
      by simp
    from Cons.IH [OF this old new sub] show ?thesis .
  next
    case False
    then have new: "part_ok L lines (cur @ line @ [NL])"
      by (simp add: part_ok_def)
    from False Cons.prems(1) have "split_loop L ls parts (cur @ line @ [NL]) = (parts', cur')"
      by simp
    from Cons.IH [OF this Cons.prems(2) new sub] show ?thesis .
  qed
qed

lemma split_loop_prefix:
  "split_loop L ls parts cur = (parts', cur') \<Longrightarrow> \<exists>suf. parts' = parts @ suf"
proof (induction ls arbitrary: parts cur)
  case Nil
  then show ?case by auto
next
  case (Cons line ls)
  then show ?case by (fastforce split: if_splits)
qed

lemma split_message_groups:
  "\<exists>groups. concat groups = split_lines message \<and> split_message message L = map glue groups"
proof -
  obtain parts' cur' where run: "split_loop L (split_lines message) [] [] = (parts', cur')"
    by (cases "split_loop L (split_lines message) [] []") auto
  then have "split_loop L (split_lines message) (map glue []) (glue []) = (parts', cur')"
    by (simp add: glue_def)
  from split_loop_groups [OF this]
  obtain gs' g' where g: "parts' = map glue gs'" "cur' = glue g'"
      "concat gs' @ g' = split_lines message"
    by auto
  show ?thesis
  proof (cases "cur' = []")
    case True
    then have "g' = []" using g(2) by (cases g') (auto simp: glue_def terminated_def)
    with g run True show ?thesis by (auto simp: split_message_def)
  next
    case False
    have "concat (gs' @ [g']) = split_lines message" using g(3) by simp
    moreover have "split_message message L = map glue (gs' @ [g'])"
      using run False g by (simp add: split_message_def)
    ultimately show ?thesis by blast
  qed
qed

lemma split_message_part_ok:
  "p \<in> set (split_message message L) \<Longrightarrow> part_ok L (split_lines message) p"
proof -
  assume p: "p \<in> set (split_message message L)"
  obtain parts' cur' where run: "split_loop L (split_lines message) [] [] = (parts', cur')"
    by (cases "split_loop L (split_lines message) [] []") auto
  have "(\<forall>q \<in> set parts'. part_ok L (split_lines message) q) \<and> part_ok L (split_lines message) cur'"
    by (rule split_loop_part_ok [OF run]) (simp_all add: part_ok_def)
  with p run show ?thesis by (auto simp: split_message_def split: if_splits)
qed

lemma send_loop_split_loop:
  "send_loop L ls out cur n = (out', cur', n') \<Longrightarrow>
   split_loop L ls (map body out) cur = (map body out', cur')"
proof (induction ls arbitrary: out cur n)
  case Nil
  then show ?case by auto
next
  case (Cons line ls)
  show ?case
  proof (cases "int (length cur) + int (length line) + 1 > L")
    case True
    with Cons.prems
    have "send_loop L ls (out @ [Part n cur]) (line @ [NL]) (n + 1) = (out', cur', n')"
      by simp
    from Cons.IH [OF this] True show ?thesis by simp
  next
    case False
    with Cons.prems
    have "send_loop L ls out (cur @ line @ [NL]) n = (out', cur', n')"
      by simp
    from Cons.IH [OF this] False show ?thesis by simp
  qed
qed

lemma send_message_bodies:
  "int (length message) > 4000 \<Longrightarrow> map body (send_message message) = split_message message 4000"
proof -
  assume long: "int (length message) > 4000"
  obtain out' cur' n' where run: "send_loop 4000 (split_lines message) [] [] 1 = (out', cur', n')"
    by (cases "send_loop 4000 (split_lines message) [] [] 1") auto
  from send_loop_split_loop [OF run]
  have "split_loop 4000 (split_lines message) [] [] = (map body out', cur')" by simp
  with long run show ?thesis by (simp add: send_message_def split_message_def)
qed

section \<open>Lemmas on the formatters\<close>

lemma replicate_numeral_Cons: "replicate (numeral k) x = x # replicate (pred_numeral k) x"
  by (simp add: numeral_eq_Suc)

lemma strip_Nil: "strip [] = []"
  by (simp add: strip_def)

lemma parse_date_nonempty: "parse_date year date_filter = Some d \<Longrightarrow> date_filter \<noteq> []"
  by (auto simp: parse_date_def strip_Nil single_pattern_def short_pattern_def)

text \<open>Any filter that is not the empty string makes the formatter take every date column.\<close>

lemma selected_dates_any_filter:
  "date_filter \<noteq> [] \<Longrightarrow> selected_dates df (Some date_filter) = tl (columns df)"
  by (simp add: selected_dates_def truthy_def)

lemma last_n_suffix: "\<exists>older. xs = older @ last_n n xs"
proof
  show "xs = take (length xs - n) xs @ last_n n xs"
    by (simp add: last_n_def)
qed

lemma last_n_all: "length xs \<le> n \<Longrightarrow> last_n n xs = xs"
  by (simp add: last_n_def)

lemma length_last_n: "n \<le> length xs \<Longrightarrow> length (last_n n xs) = n"
  by (simp add: last_n_def)

text \<open>
  The report of the interactive formatter on a table with hourly rows whose selected
  labels are not repeated: the header, one section per selected date column, in the
  order of the selection, and the footer. With a repeated label among them the result is
  the error text.
\<close>

lemma format_smp_data_bot_sections:
  "\<not> df_empty df \<Longrightarrow> hourly_data df \<noteq> [] \<Longrightarrow>
   \<not> list_ex (repeated df) (selected_dates df date_filter) \<Longrightarrow>
   format_smp_data_bot py_float today now (Some df) date_filter is_jeju =
     report_header_bot today is_jeju
     @ concat (map (date_section_bot py_float df) (selected_dates df date_filter))
     @ report_footer_bot now"
  by (simp add: format_smp_data_bot_def format_try_bot_def)

lemma format_smp_data_bot_repeated:
  "\<not> df_empty df \<Longrightarrow> hourly_data df \<noteq> [] \<Longrightarrow>
   list_ex (repeated df) (selected_dates df date_filter) \<Longrightarrow>
   format_smp_data_bot py_float today now (Some df) date_filter is_jeju =
     error_prefix_bot @ ambiguous_truth_text"
  by (simp add: format_smp_data_bot_def format_try_bot_def)

lemma format_smp_data_info_repeated:
  "\<not> df_empty df \<Longrightarrow> hourly_data df \<noteq> [] \<Longrightarrow>
   list_ex (repeated df) (tl (columns df)) \<Longrightarrow>
   format_smp_data_info py_float today now (Some df) =
     error_prefix_info @ ambiguous_truth_text"
  by (simp add: format_smp_data_info_def format_try_info_def)

text \<open>
  On the table of one week with a second column labelled 09.30, both formatters return
  their error text, with and without a filter.
\<close>

lemma format_smp_data_bot_repeated_sample:
  "format_smp_data_bot sample_float today now (Some repeated_label_table) None False
     = error_prefix_bot @ ambiguous_truth_text \<and>
   format_smp_data_bot sample_float today now (Some repeated_label_table)
     (Some (ascii ''2025-09-24'')) False = error_prefix_bot @ ambiguous_truth_text \<and>
   format_smp_data_info sample_float today now (Some repeated_label_table)
     = error_prefix_info @ ambiguous_truth_text"
  by (simp add: format_smp_data_bot_def format_try_bot_def format_smp_data_info_def
        format_try_info_def repeated_label_table_def week_table_def week_columns_def
        df_empty_def hourly_data_def is_hourly_def selected_dates_def truthy_def last_n_def
        repeated_def label_max_def ascii_def NL_def)

lemma is_ascii_digit_is_digit: "is_ascii_digit c \<Longrightarrow> is_digit c"
  by (simp add: is_ascii_digit_def is_digit_def digit_zeros_def)

text \<open>
  The newlines of the per-hour lines: a line ends with the one newline of the unit
  suffix, so when neither the row labels nor the cell texts hold a newline, the lines of
  a date column are as many as the hourly rows with a present cell under it.
\<close>

lemma count_NL_replicate_space: "count_list (replicate n (32::nat)) NL = 0"
  by (induction n) (simp_all add: NL_def)

lemma count_list_append: "count_list (xs @ ys) a = count_list xs a + count_list ys a"
  by (induction xs) simp_all

lemma count_list_notin: "a \<notin> set xs \<Longrightarrow> count_list xs a = 0"
  by (induction xs) auto

lemma count_NL_rjust: "NL \<notin> set s \<Longrightarrow> count_list (rjust w s) NL = 0"
  by (simp add: rjust_def count_list_append count_NL_replicate_space count_list_notin)

lemma count_NL_unit_suffix: "count_list unit_suffix NL = 1"
  by (simp add: unit_suffix_def ascii_def NL_def)

lemma count_NL_severity_marker: "count_list (severity_marker f) NL = 0"
  by (simp add: severity_marker_def marker_high_def marker_medium_def marker_low_def NL_def)

lemma count_NL_hourly_line:
  "NL \<notin> set time_slot \<Longrightarrow> NL \<notin> set v \<Longrightarrow>
   count_list (hourly_line py_float time_slot (Val v)) NL = 1"
  by (cases "py_float v")
     (simp_all add: hourly_line_def count_list_append count_NL_rjust count_NL_unit_suffix
        count_NL_severity_marker, simp_all add: ascii_def NL_def)

lemma count_NL_concat_lines:
  "\<forall>r \<in> set rs. NL \<notin> set (label r) \<and> (\<forall>v. cells r date_col = Val v \<longrightarrow> NL \<notin> set v) \<Longrightarrow>
   count_list (concat (map (\<lambda>r. hourly_line py_float (label r) (cells r date_col)) rs)) NL
     = length (filter (\<lambda>r. cells r date_col \<noteq> NaN) rs)"
proof (induction rs)
  case Nil
  then show ?case by simp
next
  case (Cons r rs)
  then have ih: "count_list (concat (map (\<lambda>r. hourly_line py_float (label r) (cells r date_col)) rs)) NL
      = length (filter (\<lambda>r. cells r date_col \<noteq> NaN) rs)"
    by simp
  show ?case
  proof (cases "cells r date_col")
    case NaN
    then show ?thesis using ih by (simp add: hourly_line_def)
  next
    case (Val v)
    with Cons.prems have "NL \<notin> set (label r)" "NL \<notin> set v" by auto
    then have "count_list (hourly_line py_float (label r) (Val v)) NL = 1"
      by (rule count_NL_hourly_line)
    with Val ih show ?thesis by (simp add: count_list_append)
  qed
qed

lemma hourly_lines_Nil: "hourly_data df = [] \<Longrightarrow> hourly_lines py_float df date_col = []"
  by (simp add: hourly_lines_def)

lemma NL_notin_no_data_text: "NL \<notin> set no_data_text"
  by (simp add: no_data_text_def NL_def)

lemma NL_notin_replicate: "c \<noteq> NL \<Longrightarrow> NL \<notin> set (replicate n c)"
  by auto

lemma NL_notin_ascii_title: "NL \<notin> set ([128202, 32] @ ascii ''<b>KPX '' @ [49884, 44036, 45824, 48324] @ ascii '' SMP ''
       @ [45936, 51060, 53552] @ ascii ''</b>'')"
  by (simp add: ascii_def NL_def)

lemma report_header_info_lines:
  assumes "NL \<notin> set today"
  shows "length (split_lines (report_header_info today @ no_data_text)) = 5"
proof -
  let ?title = "[128202, 32] @ ascii ''<b>KPX '' @ [49884, 44036, 45824, 48324] @ ascii '' SMP ''
       @ [45936, 51060, 53552] @ ascii ''</b>''"
  let ?date = "[128467, 32] @ today"
  let ?rule = "replicate 50 (61::nat)"
  have shape: "report_header_info today @ no_data_text =
      ?title @ NL # (?date @ NL # (?rule @ NL # ([] @ NL # no_data_text)))"
    by (simp add: report_header_info_def)
  have d: "NL \<notin> set ?date" using assms by (simp add: NL_def)
  have r: "NL \<notin> set ?rule" by (simp add: NL_def)
  have e: "NL \<notin> set ([]::nat list)" by simp
  show ?thesis
    unfolding shape
    by (simp only: split_lines_append [OF NL_notin_ascii_title] split_lines_append [OF d]
          split_lines_append [OF r] split_lines_append [OF e]
          split_lines_single [OF NL_notin_no_data_text]) simp
qed

section \<open>Lemmas on the fetch\<close>

lemma find_Some_split:
  "find P xs = Some x \<longleftrightarrow> (\<exists>pre post. xs = pre @ x # post \<and> P x \<and> (\<forall>e \<in> set pre. \<not> P e))"
proof
  assume "find P xs = Some x"
  then show "\<exists>pre post. xs = pre @ x # post \<and> P x \<and> (\<forall>e \<in> set pre. \<not> P e)"
  proof (induction xs)
    case Nil
    then show ?case by simp
  next
    case (Cons a xs)
    show ?case
    proof (cases "P a")
      case True
      with Cons.prems have "a = x" by simp
      with True have "a # xs = [] @ x # xs \<and> P x \<and> (\<forall>e \<in> set []. \<not> P e)" by simp
      then show ?thesis by blast
    next
      case False
      with Cons.prems have "find P xs = Some x" by simp
      from Cons.IH [OF this] obtain pre post
        where "xs = pre @ x # post" "P x" "\<forall>e \<in> set pre. \<not> P e" by blast
      with False have "a # xs = (a # pre) @ x # post \<and> P x \<and> (\<forall>e \<in> set (a # pre). \<not> P e)"
        by simp
      then show ?thesis by blast
    qed
  qed
next
  assume "\<exists>pre post. xs = pre @ x # post \<and> P x \<and> (\<forall>e \<in> set pre. \<not> P e)"
  then obtain pre post where xs: "xs = pre @ x # post" and px: "P x"
    and np: "\<forall>e \<in> set pre. \<not> P e" by blast
  from np have "find P (pre @ x # post) = find P (x # post)"
    by (induction pre) auto
  with xs px show "find P xs = Some x" by simp
qed

lemma is_con_table_is_table: "is_con_table e \<Longrightarrow> is_table e"
  by (simp add: is_con_table_def is_table_def)

lemma find_None_all: "find P xs = None \<longleftrightarrow> (\<forall>e \<in> set xs. \<not> P e)"
  by (auto simp: find_None_iff)

lemma find_table_info_None: "find_table_info doc = None \<longleftrightarrow> (\<forall>e \<in> set doc. \<not> is_table e)"
proof (cases "find is_con_table doc")
  case None
  then have "find_table_info doc = find is_table doc" by (simp add: find_table_info_def)
  then show ?thesis by (simp only: find_None_all)
next
  case (Some c)
  then have "c \<in> set doc" "is_con_table c" by (auto simp: find_Some_split)
  then have "\<exists>e \<in> set doc. is_table e" using is_con_table_is_table by blast
  with Some show ?thesis by (simp add: find_table_info_def)
qed


text \<open>What the two fetches return once the page has been received without an error status.\<close>

lemma fetch_smp_data_info_page:
  "request_info env target_date = Inr r \<Longrightarrow> raise_for_status r = Inr u \<Longrightarrow>
   fetch_smp_data_info env target_date =
     (case find_table_info (content r) of
        None \<Rightarrow> None
      | Some table \<Rightarrow> (case read_html env table of Inl e \<Rightarrow> None | Inr df \<Rightarrow> Some df))"
  by (simp add: fetch_smp_data_info_def fetch_try_info_def extract_table_def
        split: option.splits sum.splits)

lemma fetch_smp_data_bot_page:
  "request_bot env target_date is_jeju = Inr r \<Longrightarrow> raise_for_status r = Inr u \<Longrightarrow>
   fetch_smp_data_bot env target_date is_jeju =
     (case find_table_bot (content r) of
        None \<Rightarrow> None
      | Some table \<Rightarrow> (case read_html env table of Inl e \<Rightarrow> None | Inr df \<Rightarrow> Some df))"
  by (simp add: fetch_smp_data_bot_def fetch_try_bot_def extract_table_def
        split: option.splits sum.splits)

section \<open>Claims on the chunker\<close>

text \<open>
  Claim C4, as amended. For every message and every limit, \<open>_split_message\<close> cuts at line
  boundaries only: its parts are groups of consecutive whole lines, each line followed by
  a newline, the groups taken in order make up the line sequence of the message (every
  line in exactly one part, nothing dropped, repeated or reordered), and the parts joined
  are the message followed by one newline. Every part is empty, or at most the limit
  long, or consists of exactly one line of the message whose length plus one, for the
  newline, exceeds the limit.
\<close>

theorem split_message_lines_kept:
  "(\<exists>groups. concat groups = split_lines message \<and>
              split_message message max_length = map glue groups) \<and>
   concat (split_message message max_length) = message @ [NL] \<and>
   (\<forall>p \<in> set (split_message message max_length).
      part_ok max_length (split_lines message) p)"
proof -
  obtain groups where g: "concat groups = split_lines message"
      "split_message message max_length = map glue groups"
    using split_message_groups by blast
  have "concat (split_message message max_length) = glue (split_lines message)"
    using g by (simp add: glue_concat)
  then have "concat (split_message message max_length) = message @ [NL]"
    by (simp add: split_lines_join)
  with g split_message_part_ok show ?thesis by blast
qed

text \<open>
  The instance of the theorem at the message \<open>xy\<close>, newline, \<open>abc\<close> and limit 3.
\<close>

theorem split_message_lines_kept_witness:
  "ascii ''abc'' @ [NL] \<in> set (split_message (ascii ''xy'' @ [NL] @ ascii ''abc'') 3) \<and>
   part_ok 3 (split_lines (ascii ''xy'' @ [NL] @ ascii ''abc'')) (ascii ''abc'' @ [NL]) \<and>
   concat (split_message (ascii ''xy'' @ [NL] @ ascii ''abc'') 3) = ascii ''xy'' @ [NL] @ ascii ''abc'' @ [NL]"
proof -
  have mem: "ascii ''abc'' @ [NL] \<in> set (split_message (ascii ''xy'' @ [NL] @ ascii ''abc'') 3)"
    by (simp add: split_message_def ascii_def NL_def)
  from split_message_lines_kept [of "ascii ''xy'' @ [NL] @ ascii ''abc''" 3] mem
  show ?thesis by simp
qed

text \<open>
  Claim C4 as stated fails at the message \<open>abc\<close> with limit 3: its only line is 3 long and
  does not exceed the limit, yet the part holding it is 4 long.
\<close>

theorem split_message_size_counterexample:
  "split_lines (ascii ''abc'') = [ascii ''abc''] \<and>
   int (length (ascii ''abc'')) \<le> 3 \<and>
   split_message (ascii ''abc'') 3 = [[], ascii ''abc'' @ [NL]] \<and>
   int (length (ascii ''abc'' @ [NL])) > 3"
  by (simp add: split_message_def ascii_def NL_def)

text \<open>
  Claim C10. When the length of the first line plus one exceeds the limit, the result of
  \<open>_split_message\<close> begins with an empty part, a part that holds no line.
\<close>

theorem split_message_leading_empty_part:
  "int (length (hd (split_lines message))) + 1 > max_length \<Longrightarrow>
   \<exists>rest. split_message message max_length = [] # rest"
proof -
  assume big: "int (length (hd (split_lines message))) + 1 > max_length"
  obtain l ls where sl: "split_lines message = l # ls"
    using split_lines_not_Nil [of message] by (cases "split_lines message") auto
  obtain parts' cur' where run: "split_loop max_length ls [[]] (l @ [NL]) = (parts', cur')"
    by (cases "split_loop max_length ls [[]] (l @ [NL])") auto
  from split_loop_prefix [OF run] obtain suf where "parts' = [[]] @ suf" by blast
  with big sl run show ?thesis by (auto simp: split_message_def)
qed

text \<open>The instance at the message \<open>hello\<close> and limit 5.\<close>

theorem split_message_leading_empty_part_witness:
  "int (length (hd (split_lines (ascii ''hello'')))) + 1 > 5 \<and>
   hd (split_message (ascii ''hello'') 5) = []"
proof -
  have big: "int (length (hd (split_lines (ascii ''hello'')))) + 1 > 5"
    by (simp add: ascii_def NL_def)
  from split_message_leading_empty_part [OF big] big show ?thesis by auto
qed

section \<open>Claims on the formatters\<close>

text \<open>
  Claim C3. With no filter, the date columns \<open>format_smp_data\<close> of the interactive program
  selects are the last three date columns of the table, in their original order, and all
  of them when the table has at most three.
\<close>

theorem selected_dates_without_filter:
  "selected_dates df None = drop (length (tl (columns df)) - 3) (tl (columns df)) \<and>
   (length (tl (columns df)) \<le> 3 \<longrightarrow> selected_dates df None = tl (columns df)) \<and>
   (3 \<le> length (tl (columns df)) \<longrightarrow> length (selected_dates df None) = 3) \<and>
   (\<exists>older. tl (columns df) = older @ selected_dates df None)"
proof -
  have sel: "selected_dates df None = last_n 3 (tl (columns df))"
    by (simp add: selected_dates_def truthy_def Let_def last_n_all)
  have "last_n 3 (tl (columns df)) = drop (length (tl (columns df)) - 3) (tl (columns df))"
    by (simp only: last_n_def)
  moreover have "length (tl (columns df)) \<le> 3 \<longrightarrow> last_n 3 (tl (columns df)) = tl (columns df)"
    by (simp add: last_n_all)
  moreover have "3 \<le> length (tl (columns df)) \<longrightarrow> length (last_n 3 (tl (columns df))) = 3"
    by (simp add: length_last_n)
  moreover have "\<exists>older. tl (columns df) = older @ last_n 3 (tl (columns df))"
    by (rule last_n_suffix)
  ultimately show ?thesis unfolding sel by blast
qed

text \<open>The instance at the table of one week: its last three of seven date columns.\<close>

theorem selected_dates_without_filter_witness:
  "3 \<le> length (tl (columns week_table)) \<and>
   length (selected_dates week_table None) = 3 \<and>
   selected_dates week_table None = [ascii ''09.28'', ascii ''09.29'', ascii ''09.30'']"
proof -
  have len: "3 \<le> length (tl (columns week_table))"
    by (simp add: week_table_def week_columns_def)
  from selected_dates_without_filter [of week_table] len show ?thesis
    by (simp add: week_table_def week_columns_def)
qed

text \<open>
  Claim C1, as amended. For every table and every filter string that parses as a date
  (\<open>YYYY-MM-DD\<close>, or \<open>MM.DD\<close> expanded with the current year), the date columns the formatter
  selects are all the date columns of the table, in their original order, whether or not
  a column contains the month.day text of the date. The same holds for every filter that
  is not the empty string.
\<close>

theorem selected_dates_with_date_filter:
  "parse_date year date_filter = Some d \<Longrightarrow>
   selected_dates df (Some date_filter) = tl (columns df)"
proof -
  assume "parse_date year date_filter = Some d"
  then have "date_filter \<noteq> []" by (rule parse_date_nonempty)
  then show ?thesis by (rule selected_dates_any_filter)
qed

text \<open>The instance at the table of one week and the filter \<open>09.24\<close>, in the year 2025.\<close>

theorem selected_dates_with_date_filter_witness:
  "parse_date (ascii ''2025'') (ascii ''09.24'') = Some (ascii ''2025-09-24'') \<and>
   selected_dates week_table (Some (ascii ''09.24'')) = tl (columns week_table)"
proof -
  have p: "parse_date (ascii ''2025'') (ascii ''09.24'') = Some (ascii ''2025-09-24'')"
    by (simp add: parse_date_def strip_def is_space_def single_pattern_def short_pattern_def
          is_digit_def digit_zeros_def ascii_def)
  from selected_dates_with_date_filter [OF p, of week_table] p show ?thesis by simp
qed

text \<open>
  Claim C1 as stated fails at the table of one week with the filter \<open>2025-09-24\<close>: the
  filter parses as a date whose month.day text is \<open>09.24\<close>, exactly one column contains
  it, and the formatter selects all seven columns.
\<close>

theorem date_filter_selection_counterexample:
  "parse_date (ascii ''2025'') (ascii ''2025-09-24'') = Some (ascii ''2025-09-24'') \<and>
   month_day (ascii ''2025-09-24'') = Some (ascii ''09.24'') \<and>
   spec_date_selection (ascii ''09.24'') (tl (columns week_table)) = [ascii ''09.24''] \<and>
   length (selected_dates week_table (Some (ascii ''2025-09-24''))) = 7 \<and>
   selected_dates week_table (Some (ascii ''2025-09-24''))
     \<noteq> spec_date_selection (ascii ''09.24'') (tl (columns week_table))"
proof -
  have p: "parse_date (ascii ''2025'') (ascii ''2025-09-24'') = Some (ascii ''2025-09-24'')"
    by (simp add: parse_date_def strip_def is_space_def single_pattern_def is_digit_def
          digit_zeros_def ascii_def)
  have m: "month_day (ascii ''2025-09-24'') = Some (ascii ''09.24'')"
    by (simp add: month_day_def ascii_date_pattern_def is_ascii_digit_def ascii_def
          days_in_month_def)
  have s: "spec_date_selection (ascii ''09.24'') (tl (columns week_table)) = [ascii ''09.24'']"
    by (simp add: spec_date_selection_def week_table_def week_columns_def ascii_def)
  have f: "selected_dates week_table (Some (ascii ''2025-09-24'')) = tl (columns week_table)"
    by (simp add: selected_dates_def truthy_def ascii_def)
  have l: "length (tl (columns week_table)) = 7"
    by (simp add: week_table_def week_columns_def)
  have "length (selected_dates week_table (Some (ascii ''2025-09-24'')))
      \<noteq> length (spec_date_selection (ascii ''09.24'') (tl (columns week_table)))"
    unfolding f s l by simp
  then have "selected_dates week_table (Some (ascii ''2025-09-24''))
      \<noteq> spec_date_selection (ascii ''09.24'') (tl (columns week_table))"
    by metis
  with p m s f l show ?thesis by simp
qed

text \<open>
  Claim C2, evaluated. On the table of one week whose last column is today, 09.30, the
  today filter makes the formatter select all seven date columns, where the claim has
  the single column \<open>09.30\<close>. \<open>_filter_dates\<close>, which the formatter does not call, returns
  that single column.
\<close>

theorem today_filter_selects_every_column:
  "selected_dates week_table (Some [50724, 45720]) = tl (columns week_table) \<and>
   length (selected_dates week_table (Some [50724, 45720])) = 7 \<and>
   spec_today_selection (ascii ''09.30'') (tl (columns week_table)) = [ascii ''09.30''] \<and>
   filter_dates ascii_lower (ascii ''09.30'') (tl (columns week_table)) [50724, 45720]
     = [ascii ''09.30'']"
proof -
  have f: "selected_dates week_table (Some [50724, 45720]) = tl (columns week_table)"
    by (simp add: selected_dates_def truthy_def)
  have l: "length (tl (columns week_table)) = 7"
    by (simp add: week_table_def week_columns_def)
  have s: "spec_today_selection (ascii ''09.30'') (tl (columns week_table)) = [ascii ''09.30'']"
    by (simp add: spec_today_selection_def week_table_def week_columns_def ascii_def)
  have d: "filter_dates ascii_lower (ascii ''09.30'') (tl (columns week_table)) [50724, 45720]
      = [ascii ''09.30'']"
    by (simp add: filter_dates_def strip_def is_space_def ascii_lower_def today_keywords_def
          week_table_def week_columns_def ascii_def)
  from f l s d show ?thesis by simp
qed

text \<open>
  Claim C5, as amended. The line of an hourly cell is a function of the cell, the row
  label and the outcome of \<open>float()\<close> alone. A present cell that converts to a value over
  120, plus infinity included, gets the high marker; to a value over 90 and at most 120
  the medium marker; to any other float the low marker: a value of at most 90, minus
  infinity, and also nan, which \<open>float()\<close> gives for texts such as \<open>nan\<close>. A present cell that
  does not convert gets a line without a marker that carries its text as it is, and
  nothing is raised. A missing cell gets no line at all. The first code point of a line
  tells which of the four it is, and the lines of a date column are as many as the hourly
  rows with a present cell under it, when no label and no cell text holds a newline.
\<close>

theorem hourly_line_severity:
  "(py_float v = Some (Finite x) \<and> 120 < x \<longrightarrow>
      hourly_line py_float time_slot (Val v) =
        marker_high @ [32] @ rjust 3 time_slot @ ascii '': '' @ rjust 7 v @ unit_suffix) \<and>
   (py_float v = Some PosInf \<longrightarrow>
      hourly_line py_float time_slot (Val v) =
        marker_high @ [32] @ rjust 3 time_slot @ ascii '': '' @ rjust 7 v @ unit_suffix) \<and>
   (py_float v = Some (Finite x) \<and> 90 < x \<and> x \<le> 120 \<longrightarrow>
      hourly_line py_float time_slot (Val v) =
        marker_medium @ [32] @ rjust 3 time_slot @ ascii '': '' @ rjust 7 v @ unit_suffix) \<and>
   (py_float v = Some (Finite x) \<and> x \<le> 90 \<longrightarrow>
      hourly_line py_float time_slot (Val v) =
        marker_low @ [32] @ rjust 3 time_slot @ ascii '': '' @ rjust 7 v @ unit_suffix) \<and>
   (py_float v = Some NegInf \<longrightarrow>
      hourly_line py_float time_slot (Val v) =
        marker_low @ [32] @ rjust 3 time_slot @ ascii '': '' @ rjust 7 v @ unit_suffix) \<and>
   (py_float v = Some NotANumber \<longrightarrow>
      hourly_line py_float time_slot (Val v) =
        marker_low @ [32] @ rjust 3 time_slot @ ascii '': '' @ rjust 7 v @ unit_suffix) \<and>
   (py_float v = None \<longrightarrow>
      hourly_line py_float time_slot (Val v) =
        ascii ''  '' @ rjust 3 time_slot @ ascii '': '' @ rjust 7 v @ unit_suffix) \<and>
   hourly_line py_float time_slot NaN = [] \<and>
   (py_float v = Some f \<longrightarrow>
      (take 1 (hourly_line py_float time_slot (Val v)) = marker_high \<longleftrightarrow> float_gt f 120) \<and>
      (take 1 (hourly_line py_float time_slot (Val v)) = marker_medium \<longleftrightarrow>
         float_gt f 90 \<and> \<not> float_gt f 120) \<and>
      (take 1 (hourly_line py_float time_slot (Val v)) = marker_low \<longleftrightarrow> \<not> float_gt f 90)) \<and>
   (py_float v = None \<longrightarrow> take 1 (hourly_line py_float time_slot (Val v)) = [32]) \<and>
   ((\<forall>r \<in> set (hourly_data df).
        NL \<notin> set (label r) \<and> (\<forall>t. cells r date_col = Val t \<longrightarrow> NL \<notin> set t)) \<longrightarrow>
      count_list (hourly_lines py_float df date_col) NL
        = length (filter (\<lambda>r. cells r date_col \<noteq> NaN) (hourly_data df)))"
proof -
  have table:
    "(py_float v = Some (Finite x) \<and> 120 < x \<longrightarrow>
        hourly_line py_float time_slot (Val v) =
          marker_high @ [32] @ rjust 3 time_slot @ ascii '': '' @ rjust 7 v @ unit_suffix) \<and>
     (py_float v = Some PosInf \<longrightarrow>
        hourly_line py_float time_slot (Val v) =
          marker_high @ [32] @ rjust 3 time_slot @ ascii '': '' @ rjust 7 v @ unit_suffix) \<and>
     (py_float v = Some (Finite x) \<and> 90 < x \<and> x \<le> 120 \<longrightarrow>
        hourly_line py_float time_slot (Val v) =
          marker_medium @ [32] @ rjust 3 time_slot @ ascii '': '' @ rjust 7 v @ unit_suffix) \<and>
     (py_float v = Some (Finite x) \<and> x \<le> 90 \<longrightarrow>
        hourly_line py_float time_slot (Val v) =
          marker_low @ [32] @ rjust 3 time_slot @ ascii '': '' @ rjust 7 v @ unit_suffix) \<and>
     (py_float v = Some NegInf \<longrightarrow>
        hourly_line py_float time_slot (Val v) =
          marker_low @ [32] @ rjust 3 time_slot @ ascii '': '' @ rjust 7 v @ unit_suffix) \<and>
     (py_float v = Some NotANumber \<longrightarrow>
        hourly_line py_float time_slot (Val v) =
          marker_low @ [32] @ rjust 3 time_slot @ ascii '': '' @ rjust 7 v @ unit_suffix) \<and>
     (py_float v = None \<longrightarrow>
        hourly_line py_float time_slot (Val v) =
          ascii ''  '' @ rjust 3 time_slot @ ascii '': '' @ rjust 7 v @ unit_suffix) \<and>
     hourly_line py_float time_slot NaN = []"
    by (simp add: hourly_line_def severity_marker_def float_gt_def)
  have first: "py_float v = Some f \<longrightarrow>
      (take 1 (hourly_line py_float time_slot (Val v)) = marker_high \<longleftrightarrow> float_gt f 120) \<and>
      (take 1 (hourly_line py_float time_slot (Val v)) = marker_medium \<longleftrightarrow>
         float_gt f 90 \<and> \<not> float_gt f 120) \<and>
      (take 1 (hourly_line py_float time_slot (Val v)) = marker_low \<longleftrightarrow> \<not> float_gt f 90)"
  proof
    assume some: "py_float v = Some f"
    have mono: "float_gt f 120 \<Longrightarrow> float_gt f 90"
      by (cases f) (simp_all add: float_gt_def)
    show "(take 1 (hourly_line py_float time_slot (Val v)) = marker_high \<longleftrightarrow> float_gt f 120) \<and>
      (take 1 (hourly_line py_float time_slot (Val v)) = marker_medium \<longleftrightarrow>
         float_gt f 90 \<and> \<not> float_gt f 120) \<and>
      (take 1 (hourly_line py_float time_slot (Val v)) = marker_low \<longleftrightarrow> \<not> float_gt f 90)"
      using some mono
      by (auto simp: hourly_line_def severity_marker_def marker_high_def marker_medium_def
            marker_low_def)
  qed
  have plain: "py_float v = None \<longrightarrow> take 1 (hourly_line py_float time_slot (Val v)) = [32]"
    by (simp add: hourly_line_def ascii_def)
  have lines: "(\<forall>r \<in> set (hourly_data df).
        NL \<notin> set (label r) \<and> (\<forall>t. cells r date_col = Val t \<longrightarrow> NL \<notin> set t)) \<longrightarrow>
      count_list (hourly_lines py_float df date_col) NL
        = length (filter (\<lambda>r. cells r date_col \<noteq> NaN) (hourly_data df))"
    unfolding hourly_lines_def using count_NL_concat_lines by blast
  from table first plain lines show ?thesis by blast
qed

text \<open>
  The instances at the cells 150, 100, 50, \<open>NAN\<close> and \<open>n/a\<close> of the row \<open>1h\<close>: the three
  markers, the low marker for nan, and the line without one; and the two lines of a
  column of the table of one week.
\<close>

theorem hourly_line_severity_witness:
  "sample_float (ascii ''150'') = Some (Finite 150) \<and>
   hourly_line sample_float (ascii ''1h'') (Val (ascii ''150'')) =
     marker_high @ ascii ''  1h:     150'' @ unit_suffix \<and>
   sample_float (ascii ''100'') = Some (Finite 100) \<and>
   hourly_line sample_float (ascii ''1h'') (Val (ascii ''100'')) =
     marker_medium @ ascii ''  1h:     100'' @ unit_suffix \<and>
   sample_float (ascii ''50'') = Some (Finite 50) \<and>
   hourly_line sample_float (ascii ''1h'') (Val (ascii ''50'')) =
     marker_low @ ascii ''  1h:      50'' @ unit_suffix \<and>
   sample_float (ascii ''NAN'') = Some NotANumber \<and>
   hourly_line sample_float (ascii ''1h'') (Val (ascii ''NAN'')) =
     marker_low @ ascii ''  1h:     NAN'' @ unit_suffix \<and>
   sample_float (ascii ''n/a'') = None \<and>
   hourly_line sample_float (ascii ''1h'') (Val (ascii ''n/a'')) =
     ascii ''   1h:     n/a'' @ unit_suffix \<and>
   take 1 (hourly_line sample_float (ascii ''1h'') (Val (ascii ''150''))) = marker_high \<and>
   count_list (hourly_lines sample_float week_table (ascii ''09.30'')) NL = 2"
proof -
  have a: "sample_float (ascii ''150'') = Some (Finite 150)"
    and b: "sample_float (ascii ''100'') = Some (Finite 100)"
    and c: "sample_float (ascii ''50'') = Some (Finite 50)"
    and n: "sample_float (ascii ''NAN'') = Some NotANumber"
    and d: "sample_float (ascii ''n/a'') = None"
    by (simp_all add: sample_float_def ascii_def)
  have hd: "hourly_data week_table =
      [\<lparr>label = ascii ''1h'', cells = (\<lambda>col. Val (ascii ''150''))\<rparr>,
       \<lparr>label = ascii ''2h'', cells = (\<lambda>col. Val (ascii ''85.5''))\<rparr>]"
    by (simp add: hourly_data_def week_table_def is_hourly_def label_max_def ascii_def NL_def)
  have clean: "\<forall>r \<in> set (hourly_data week_table).
      NL \<notin> set (label r) \<and> (\<forall>t. cells r (ascii ''09.30'') = Val t \<longrightarrow> NL \<notin> set t)"
    unfolding hd by (simp add: ascii_def NL_def)
  have gt: "float_gt (Finite 150) 120" by (simp add: float_gt_def)
  note t1 = hourly_line_severity [where py_float = sample_float and v = "ascii ''150''"
      and x = 150 and f = "Finite 150" and time_slot = "ascii ''1h''" and df = week_table
      and date_col = "ascii ''09.30''"]
  note t2 = hourly_line_severity [where py_float = sample_float and v = "ascii ''100''"
      and x = 100 and time_slot = "ascii ''1h''"]
  note t3 = hourly_line_severity [where py_float = sample_float and v = "ascii ''50''"
      and x = 50 and time_slot = "ascii ''1h''"]
  note t4 = hourly_line_severity [where py_float = sample_float and v = "ascii ''NAN''"
      and time_slot = "ascii ''1h''"]
  note t5 = hourly_line_severity [where py_float = sample_float and v = "ascii ''n/a''"
      and time_slot = "ascii ''1h''"]
  have l1: "hourly_line sample_float (ascii ''1h'') (Val (ascii ''150'')) =
      marker_high @ ascii ''  1h:     150'' @ unit_suffix"
    using t1 a by (simp add: rjust_def ascii_def replicate_numeral_Cons)
  have l2: "hourly_line sample_float (ascii ''1h'') (Val (ascii ''100'')) =
      marker_medium @ ascii ''  1h:     100'' @ unit_suffix"
    using t2 b by (simp add: rjust_def ascii_def replicate_numeral_Cons)
  have l3: "hourly_line sample_float (ascii ''1h'') (Val (ascii ''50'')) =
      marker_low @ ascii ''  1h:      50'' @ unit_suffix"
    using t3 c by (simp add: rjust_def ascii_def replicate_numeral_Cons)
  have l4: "hourly_line sample_float (ascii ''1h'') (Val (ascii ''NAN'')) =
      marker_low @ ascii ''  1h:     NAN'' @ unit_suffix"
    using t4 n by (simp add: rjust_def ascii_def replicate_numeral_Cons)
  have l5: "hourly_line sample_float (ascii ''1h'') (Val (ascii ''n/a'')) =
      ascii ''   1h:     n/a'' @ unit_suffix"
    using t5 d by (simp add: rjust_def ascii_def replicate_numeral_Cons)
  have m: "take 1 (hourly_line sample_float (ascii ''1h'') (Val (ascii ''150''))) = marker_high"
    using t1 a gt by blast
  have "count_list (hourly_lines sample_float week_table (ascii ''09.30'')) NL
      = length (filter (\<lambda>r. cells r (ascii ''09.30'') \<noteq> NaN) (hourly_data week_table))"
    using t1 clean by blast
  then have k: "count_list (hourly_lines sample_float week_table (ascii ''09.30'')) NL = 2"
    unfolding hd by simp
  from a b c n d l1 l2 l3 l4 l5 m k show ?thesis by blast
qed

text \<open>
  Claim C5 as stated fails at a missing cell: the claim has its text passed through
  without a marker, as for the cell \<open>n/a\<close>, and the formatter writes no line for it. It also
  fails at the present cell \<open>NAN\<close>, a text that is no number: \<open>float()\<close> turns it into nan,
  and the line gets the low marker.
\<close>

theorem missing_cell_counterexample:
  "hourly_line sample_float (ascii ''1h'') NaN = [] \<and>
   cell_str NaN = ascii ''nan'' \<and>
   hourly_line sample_float (ascii ''1h'') NaN
     \<noteq> ascii ''   1h:     nan'' @ unit_suffix \<and>
   hourly_line sample_float (ascii ''1h'') (Val (ascii ''n/a''))
     = ascii ''   1h:     n/a'' @ unit_suffix \<and>
   sample_float (ascii ''NAN'') = Some NotANumber \<and>
   hourly_line sample_float (ascii ''1h'') (Val (ascii ''NAN''))
     = marker_low @ ascii ''  1h:     NAN'' @ unit_suffix"
  by (simp add: hourly_line_def cell_str_def sample_float_def rjust_def ascii_def
        replicate_numeral_Cons severity_marker_def float_gt_def)

text \<open>
  Claim C8, as amended. On a missing or empty table the interactive formatter returns
  the "no data" notice alone, which is a single line; the scheduled formatter returns
  its report header followed by the notice, five lines in all (title, date, rule, an
  empty line, the notice) when the date text has no newline. Neither raises.
\<close>

theorem no_data_report:
  "format_smp_data_bot py_float today now None date_filter is_jeju = no_data_text \<and>
   (df_empty df \<longrightarrow>
      format_smp_data_bot py_float today now (Some df) date_filter is_jeju = no_data_text) \<and>
   split_lines no_data_text = [no_data_text] \<and>
   format_smp_data_info py_float today now None = report_header_info today @ no_data_text \<and>
   (df_empty df \<longrightarrow>
      format_smp_data_info py_float today now (Some df)
        = report_header_info today @ no_data_text) \<and>
   (NL \<notin> set today \<longrightarrow>
      length (split_lines (format_smp_data_info py_float today now None)) = 5)"
proof -
  have info: "format_smp_data_info py_float today now None = report_header_info today @ no_data_text"
    by (simp add: format_smp_data_info_def format_try_info_def)
  have "NL \<notin> set today \<longrightarrow>
      length (split_lines (format_smp_data_info py_float today now None)) = 5"
    unfolding info using report_header_info_lines by blast
  moreover have "split_lines no_data_text = [no_data_text]"
    by (rule split_lines_single [OF NL_notin_no_data_text])
  ultimately show ?thesis
    by (simp add: format_smp_data_bot_def format_try_bot_def format_smp_data_info_def
          format_try_info_def)
qed

text \<open>The instance at a table without rows and at the date text \<open>2025-09-30\<close>.\<close>

theorem no_data_report_witness:
  "df_empty \<lparr>columns = week_columns, rows = []\<rparr> \<and>
   format_smp_data_bot sample_float (ascii ''2025-09-30'') (ascii ''09:00:00'')
     (Some \<lparr>columns = week_columns, rows = []\<rparr>) None False = no_data_text \<and>
   format_smp_data_info sample_float (ascii ''2025-09-30'') (ascii ''09:00:00'')
     (Some \<lparr>columns = week_columns, rows = []\<rparr>)
     = report_header_info (ascii ''2025-09-30'') @ no_data_text \<and>
   NL \<notin> set (ascii ''2025-09-30'') \<and>
   length (split_lines (format_smp_data_info sample_float (ascii ''2025-09-30'')
     (ascii ''09:00:00'') None)) = 5"
proof -
  have e: "df_empty \<lparr>columns = week_columns, rows = []\<rparr>"
    by (simp add: df_empty_def)
  have n: "NL \<notin> set (ascii ''2025-09-30'')"
    by (simp add: ascii_def NL_def)
  note r = no_data_report [of sample_float "ascii ''2025-09-30''" "ascii ''09:00:00''" None False
         "\<lparr>columns = week_columns, rows = []\<rparr>"]
  from r e n show ?thesis by blast
qed

text \<open>
  Claim C8 as stated fails for the scheduled formatter: its report on a missing table
  contains newlines, so it is not a single line.
\<close>

theorem no_data_report_counterexample:
  "NL \<in> set (format_smp_data_info sample_float (ascii ''2025-09-30'') (ascii ''09:00:00'') None) \<and>
   split_lines (format_smp_data_info sample_float (ascii ''2025-09-30'') (ascii ''09:00:00'') None)
     \<noteq> [format_smp_data_info sample_float (ascii ''2025-09-30'') (ascii ''09:00:00'') None]"
proof -
  let ?r = "format_smp_data_info sample_float (ascii ''2025-09-30'') (ascii ''09:00:00'') None"
  have m: "NL \<in> set ?r"
    by (simp add: format_smp_data_info_def format_try_info_def report_header_info_def)
  have "split_lines ?r \<noteq> [?r]"
  proof
    assume "split_lines ?r = [?r]"
    then have "?r \<in> set (split_lines ?r)" by simp
    then have "NL \<notin> set ?r" by (rule split_lines_no_NL)
    with m show False by simp
  qed
  with m show ?thesis by simp
qed

text \<open>
  Claim C9, as amended. A row is classified as hourly if and only if its label ends with
  the letter h, or with h and one final newline. Every label made of digits followed by
  h is hourly, and a row that is not hourly adds nothing to the per-hour lines.
\<close>

theorem is_hourly_ends_with_h:
  "(is_hourly l \<longleftrightarrow> (\<exists>p. l = p @ [104]) \<or> (\<exists>p. l = p @ [104, NL])) \<and>
   (spec_integer_h l \<longrightarrow> is_hourly l) \<and>
   (\<not> is_hourly (label r) \<longrightarrow>
      hourly_lines py_float (df\<lparr>rows := before @ [r] @ after\<rparr>) date_col =
      hourly_lines py_float (df\<lparr>rows := before @ after\<rparr>) date_col) \<and>
   (is_hourly (label r) \<longrightarrow>
      hourly_lines py_float (df\<lparr>rows := before @ [r] @ after\<rparr>) date_col =
      hourly_lines py_float (df\<lparr>rows := before\<rparr>) date_col
      @ hourly_line py_float (label r) (cells r date_col)
      @ hourly_lines py_float (df\<lparr>rows := after\<rparr>) date_col)"
proof -
  have one: "l \<noteq> [] \<and> last l = 104 \<longleftrightarrow> (\<exists>p. l = p @ [104])"
  proof
    assume "l \<noteq> [] \<and> last l = 104"
    then have "l = butlast l @ [104]" by (metis append_butlast_last_id)
    then show "\<exists>p. l = p @ [104]" ..
  next
    assume "\<exists>p. l = p @ [104]"
    then show "l \<noteq> [] \<and> last l = 104" by auto
  qed
  have two: "length l \<ge> 2 \<and> last l = NL \<and> last (butlast l) = 104 \<longleftrightarrow> (\<exists>p. l = p @ [104, NL])"
  proof
    assume a: "length l \<ge> 2 \<and> last l = NL \<and> last (butlast l) = 104"
    then have "l \<noteq> []" by auto
    with a have l1: "l = butlast l @ [NL]" by (metis append_butlast_last_id)
    from a have "butlast l \<noteq> []" by (cases l) auto
    with a have "butlast l = butlast (butlast l) @ [104]" by (metis append_butlast_last_id)
    with l1 have "l = butlast (butlast l) @ [104, NL]" by (metis append.assoc append_Cons append_Nil)
    then show "\<exists>p. l = p @ [104, NL]" ..
  next
    assume "\<exists>p. l = p @ [104, NL]"
    then obtain p where "l = p @ [104, NL]" ..
    then show "length l \<ge> 2 \<and> last l = NL \<and> last (butlast l) = 104"
      by (simp add: butlast_append)
  qed
  have iff: "is_hourly l \<longleftrightarrow> (\<exists>p. l = p @ [104]) \<or> (\<exists>p. l = p @ [104, NL])"
    unfolding is_hourly_def one two ..
  have spec: "spec_integer_h l \<longrightarrow> is_hourly l"
    by (simp add: spec_integer_h_def is_hourly_def)
  show ?thesis
    using iff spec by (simp add: hourly_lines_def hourly_data_def)
qed

text \<open>
  The instances at the labels \<open>24h\<close> and \<open>high\<close>, which are hourly, and at the maximum
  row, which is not: placed between the rows \<open>1h\<close> and \<open>2h\<close> it leaves the per-hour lines
  as they are without it.
\<close>

theorem is_hourly_ends_with_h_witness:
  "spec_integer_h (ascii ''24h'') \<and> is_hourly (ascii ''24h'') \<and>
   is_hourly (ascii ''hig'' @ [104]) \<and>
   \<not> is_hourly (label \<lparr>label = label_max, cells = (\<lambda>col. Val (ascii ''150''))\<rparr>) \<and>
   hourly_lines sample_float
     (week_table\<lparr>rows := [\<lparr>label = ascii ''1h'', cells = (\<lambda>col. Val (ascii ''150''))\<rparr>]
        @ [\<lparr>label = label_max, cells = (\<lambda>col. Val (ascii ''150''))\<rparr>]
        @ [\<lparr>label = ascii ''2h'', cells = (\<lambda>col. Val (ascii ''85.5''))\<rparr>]\<rparr>)
     (ascii ''09.30'') =
   hourly_lines sample_float
     (week_table\<lparr>rows := [\<lparr>label = ascii ''1h'', cells = (\<lambda>col. Val (ascii ''150''))\<rparr>]
        @ [\<lparr>label = ascii ''2h'', cells = (\<lambda>col. Val (ascii ''85.5''))\<rparr>]\<rparr>)
     (ascii ''09.30'')"
proof -
  have s: "spec_integer_h (ascii ''24h'')"
    by (simp add: spec_integer_h_def is_ascii_digit_def ascii_def)
  have h: "\<exists>p. ascii ''hig'' @ [104] = p @ [104]" by blast
  have n: "\<not> is_hourly (label \<lparr>label = label_max, cells = (\<lambda>col. Val (ascii ''150''))\<rparr>)"
    by (simp add: is_hourly_def label_max_def NL_def)
  note a = is_hourly_ends_with_h [where l = "ascii ''24h''"
         and r = "\<lparr>label = label_max, cells = (\<lambda>col. Val (ascii ''150''))\<rparr>"
         and py_float = sample_float and df = week_table
         and before = "[\<lparr>label = ascii ''1h'', cells = (\<lambda>col. Val (ascii ''150''))\<rparr>]"
         and after = "[\<lparr>label = ascii ''2h'', cells = (\<lambda>col. Val (ascii ''85.5''))\<rparr>]"
         and date_col = "ascii ''09.30''"]
  note b = is_hourly_ends_with_h [where l = "ascii ''hig'' @ [104]"
         and r = "\<lparr>label = label_max, cells = (\<lambda>col. Val (ascii ''150''))\<rparr>"
         and py_float = sample_float and df = week_table
         and before = "[\<lparr>label = ascii ''1h'', cells = (\<lambda>col. Val (ascii ''150''))\<rparr>]"
         and after = "[\<lparr>label = ascii ''2h'', cells = (\<lambda>col. Val (ascii ''85.5''))\<rparr>]"
         and date_col = "ascii ''09.30''"]
  from a b s h n show ?thesis by blast
qed

text \<open>
  Claim C9 as stated fails at the label \<open>high\<close>: it is no integer followed by h, yet the
  row counts as hourly and gets a per-hour line.
\<close>

theorem is_hourly_counterexample:
  "is_hourly (ascii ''high'') \<and>
   \<not> spec_integer_h (ascii ''high'') \<and>
   map label (hourly_data high_row_table) = [ascii ''high'', ascii ''24h''] \<and>
   hourly_lines sample_float high_row_table (ascii ''09.30'') =
     marker_low @ ascii '' high:       1'' @ unit_suffix
     @ marker_low @ ascii '' 24h:       2'' @ unit_suffix"
  by (simp add: is_hourly_def spec_integer_h_def is_ascii_digit_def hourly_data_def
        hourly_lines_def high_row_table_def hourly_line_def severity_marker_def float_gt_def
        sample_float_def rjust_def ascii_def NL_def replicate_numeral_Cons)

section \<open>Claims on the fetch\<close>




text \<open>
  Claim C7, as amended. The scheduled program takes the first table element with the
  class marker and, when the page has none, the first table element of the page; it finds
  no table only when the page has no table element. The interactive program takes the
  first table element with the class marker and has no fallback: it finds no table, and
  its fetch returns \<open>None\<close>, whenever no table element carries the marker, also when
  the page has other tables.
\<close>

theorem find_table_first_match:
  "(find_table_info doc = Some t \<longleftrightarrow>
      (\<exists>pre post. doc = pre @ t # post \<and>
         ((is_con_table t \<and> (\<forall>e \<in> set pre. \<not> is_con_table e)) \<or>
          (is_table t \<and> (\<forall>e \<in> set doc. \<not> is_con_table e) \<and> (\<forall>e \<in> set pre. \<not> is_table e))))) \<and>
   (find_table_info doc = None \<longleftrightarrow> (\<forall>e \<in> set doc. \<not> is_table e)) \<and>
   (find_table_bot doc = Some t \<longleftrightarrow>
      (\<exists>pre post. doc = pre @ t # post \<and> is_con_table t \<and> (\<forall>e \<in> set pre. \<not> is_con_table e))) \<and>
   (find_table_bot doc = None \<longleftrightarrow> (\<forall>e \<in> set doc. \<not> is_con_table e)) \<and>
   (request_info env target_date = Inr r \<and> raise_for_status r = Inr u \<and>
    (\<forall>e \<in> set (content r). \<not> is_table e) \<longrightarrow> fetch_smp_data_info env target_date = None) \<and>
   (request_bot env target_date is_jeju = Inr r \<and> raise_for_status r = Inr u \<and>
    (\<forall>e \<in> set (content r). \<not> is_con_table e) \<longrightarrow>
      fetch_smp_data_bot env target_date is_jeju = None)"
proof -
  have bot_some: "find_table_bot doc = Some t \<longleftrightarrow>
      (\<exists>pre post. doc = pre @ t # post \<and> is_con_table t \<and> (\<forall>e \<in> set pre. \<not> is_con_table e))"
    unfolding find_table_bot_def by (rule find_Some_split)
  have bot_none: "find_table_bot doc = None \<longleftrightarrow> (\<forall>e \<in> set doc. \<not> is_con_table e)"
    unfolding find_table_bot_def by (rule find_None_all)
  have info_none: "find_table_info doc = None \<longleftrightarrow> (\<forall>e \<in> set doc. \<not> is_table e)"
    by (rule find_table_info_None)
  have info_some: "find_table_info doc = Some t \<longleftrightarrow>
      (\<exists>pre post. doc = pre @ t # post \<and>
         ((is_con_table t \<and> (\<forall>e \<in> set pre. \<not> is_con_table e)) \<or>
          (is_table t \<and> (\<forall>e \<in> set doc. \<not> is_con_table e) \<and> (\<forall>e \<in> set pre. \<not> is_table e))))"
  proof (cases "find is_con_table doc")
    case None
    then have no: "\<forall>e \<in> set doc. \<not> is_con_table e" by (simp add: find_None_all)
    from None have "find_table_info doc = Some t \<longleftrightarrow> find is_table doc = Some t"
      by (simp add: find_table_info_def)
    also have "\<dots> \<longleftrightarrow> (\<exists>pre post. doc = pre @ t # post \<and> is_table t \<and> (\<forall>e \<in> set pre. \<not> is_table e))"
      by (rule find_Some_split)
    finally show ?thesis using no by auto
  next
    case (Some c)
    then have c: "c \<in> set doc" "is_con_table c" by (auto simp: find_Some_split)
    from Some have "find_table_info doc = Some t \<longleftrightarrow> find is_con_table doc = Some t"
      by (simp add: find_table_info_def)
    also have "\<dots> \<longleftrightarrow> (\<exists>pre post. doc = pre @ t # post \<and> is_con_table t \<and>
        (\<forall>e \<in> set pre. \<not> is_con_table e))"
      by (rule find_Some_split)
    finally show ?thesis using c by blast
  qed
  have f_info: "request_info env target_date = Inr r \<and> raise_for_status r = Inr u \<and>
      (\<forall>e \<in> set (content r). \<not> is_table e) \<longrightarrow> fetch_smp_data_info env target_date = None"
  proof (intro impI, elim conjE)
    assume q: "request_info env target_date = Inr r" and s: "raise_for_status r = Inr u"
      and n: "\<forall>e \<in> set (content r). \<not> is_table e"
    from n have "find_table_info (content r) = None"
      by (simp only: find_table_info_None)
    with fetch_smp_data_info_page [OF q s] show "fetch_smp_data_info env target_date = None"
      by simp
  qed
  have f_bot: "request_bot env target_date is_jeju = Inr r \<and> raise_for_status r = Inr u \<and>
      (\<forall>e \<in> set (content r). \<not> is_con_table e) \<longrightarrow>
      fetch_smp_data_bot env target_date is_jeju = None"
  proof (intro impI, elim conjE)
    assume q: "request_bot env target_date is_jeju = Inr r" and s: "raise_for_status r = Inr u"
      and n: "\<forall>e \<in> set (content r). \<not> is_con_table e"
    from n have "find_table_bot (content r) = None"
      by (simp add: find_table_bot_def find_None_all)
    with fetch_smp_data_bot_page [OF q s] show "fetch_smp_data_bot env target_date is_jeju = None"
      by simp
  qed
  from info_some info_none bot_some bot_none f_info f_bot show ?thesis by blast
qed

text \<open>
  The instances at a page with a heading, a plain table and a marked table, where both
  programs take the marked table, and at the server whose page has a plain table only,
  where the interactive fetch returns \<open>None\<close>.
\<close>

theorem find_table_first_match_witness:
  "find_table_info [heading, plain_table, con_table] = Some con_table \<and>
   find_table_bot [heading, plain_table, con_table] = Some con_table \<and>
   request_bot plain_server None False = Inr \<lparr>status_code = 200, content = [heading, plain_table]\<rparr> \<and>
   fetch_smp_data_bot plain_server None False = None"
proof -
  have c: "is_con_table con_table" and p: "\<not> is_con_table plain_table"
    and h: "\<not> is_con_table heading"
    by (simp_all add: is_con_table_def con_table_def plain_table_def heading_def ascii_def)
  have split: "[heading, plain_table, con_table] = [heading, plain_table] @ con_table # []"
    by simp
  have pre: "\<forall>e \<in> set [heading, plain_table]. \<not> is_con_table e"
    using p h by simp
  note a = find_table_first_match [where doc = "[heading, plain_table, con_table]"
      and t = con_table and env = plain_server and target_date = None and is_jeju = False
      and r = "\<lparr>status_code = 200, content = [heading, plain_table]\<rparr>" and u = "()"]
  have q: "request_bot plain_server None False
      = Inr \<lparr>status_code = 200, content = [heading, plain_table]\<rparr>"
    by (simp add: request_bot_def request_page_def plain_server_def)
  have s: "raise_for_status \<lparr>status_code = 200, content = [heading, plain_table]\<rparr> = Inr ()"
    by (simp add: raise_for_status_def)
  have n: "\<forall>e \<in> set (content \<lparr>status_code = 200, content = [heading, plain_table]\<rparr>).
      \<not> is_con_table e"
    using p h by simp
  have i: "find_table_info [heading, plain_table, con_table] = Some con_table"
    using a c split pre by blast
  have b: "find_table_bot [heading, plain_table, con_table] = Some con_table"
    using a c split pre by blast
  have f: "fetch_smp_data_bot plain_server None False = None"
    using a q s n by blast
  from i b q f show ?thesis by blast
qed

text \<open>
  Claim C7 as stated fails for the interactive program at a page whose only table has no
  class marker: a table element exists, the scheduled program reads it, and the
  interactive program finds no table and returns \<open>None\<close>.
\<close>

theorem find_table_fallback_counterexample:
  "is_table plain_table \<and>
   find is_table [heading, plain_table] = Some plain_table \<and>
   find_table_info [heading, plain_table] = Some plain_table \<and>
   find_table_bot [heading, plain_table] = None \<and>
   fetch_smp_data_info plain_server None = Some week_table \<and>
   fetch_smp_data_bot plain_server None False = None"
  by (simp add: plain_server_def fetch_smp_data_bot_def fetch_try_bot_def
        fetch_smp_data_info_def fetch_try_info_def request_bot_def request_info_def
        request_page_def extract_table_def raise_for_status_def find_table_bot_def
        find_table_info_def is_con_table_def is_table_def heading_def plain_table_def ascii_def)

end
